theory Spec2Isabelle
  imports Complex_Main "HOL-Library.Multiset" "HOL-Library.Product_Lexorder"
begin

section \<open>Python values the code relies on\<close>

text \<open>
  Exceptions are values.  Every raise of the source is a branch of the model that returns
  the exception together with the state as it is at the raise, because a Python exception
  does not undo the assignments made before it.
\<close>

datatype error =
    ValueError string
  | IndexError
  | RuntimeError string
  | AttributeError string
  | TypeError string
  | OverflowError string

text \<open>\<^verbatim>\<open>str(n)\<close> of a Python int, used by the f-strings of the error messages.\<close>

fun digits :: "nat \<Rightarrow> string" where
  "digits n =
     (if n < 10 then [''0123456789'' ! n]
      else digits (n div 10) @ [''0123456789'' ! (n mod 10)])"

declare digits.simps [simp del]

definition str :: "int \<Rightarrow> string" where
  "str i = (if i < 0 then ''-'' @ digits (nat (- i)) else digits (nat i))"

text \<open>
  \<^verbatim>\<open>xs[i] = v\<close> and \<^verbatim>\<open>xs[i]\<close> on a Python list: a negative index counts from the end and
  an index outside the list raises IndexError.
\<close>

definition list_index :: "int list \<Rightarrow> int \<Rightarrow> error + nat" where
  "list_index xs i =
     (if 0 \<le> i \<and> i < int (length xs) then Inr (nat i)
      else if i < 0 \<and> - int (length xs) \<le> i then Inr (nat (int (length xs) + i))
      else Inl IndexError)"

definition list_setitem :: "int list \<Rightarrow> int \<Rightarrow> int \<Rightarrow> error + int list" where
  "list_setitem xs i v = (case list_index xs i of Inl e \<Rightarrow> Inl e | Inr j \<Rightarrow> Inr (xs[j := v]))"

definition list_getitem :: "int list \<Rightarrow> int \<Rightarrow> error + int" where
  "list_getitem xs i = (case list_index xs i of Inl e \<Rightarrow> Inl e | Inr j \<Rightarrow> Inr (xs ! j))"

text \<open>The slice \<^verbatim>\<open>xs[:n]\<close>: a negative bound counts from the end, and bounds are clamped.\<close>

definition slice_to :: "int list \<Rightarrow> int \<Rightarrow> int list" where
  "slice_to xs n = take (nat (if n < 0 then int (length xs) + n else n)) xs"

text \<open>\<^verbatim>\<open>bytes(xs)\<close> raises ValueError unless every element is in \<^verbatim>\<open>range(256)\<close>.\<close>

definition bytes :: "int list \<Rightarrow> error + int list" where
  "bytes xs =
     (if \<forall>x \<in> set xs. 0 \<le> x \<and> x < 256 then Inr xs
      else Inl (ValueError ''bytes must be in range(0, 256)''))"

section \<open>FtdiDmxInterface\<close>

text \<open>
  What reaches the outside world: the calls on the FTDI device and the \<^verbatim>\<open>nanosleep\<close>
  calls on libc, each with its arguments, in the order they are made.  A call on the
  device is taken to succeed.
\<close>

datatype io =
    Ftdi_set_baudrate int
  | Ftdi_set_line_property int int int
  | Ftdi_set_line_property2 int int int int
  | Nanosleep int int
  | Write "int list"
  | Close

record FtdiDmxInterface =
  dmx_channels :: "int list"
  highest_updated_channel :: int
  io_trace :: "io list"

type_synonym 'a result = "(error + 'a) \<times> FtdiDmxInterface"

definition MS_PER_S :: int where "MS_PER_S = 1000000"
definition NS_PER_MS :: int where "NS_PER_MS = 1000"
definition US_PER_MS :: int where "US_PER_MS = 1000"
definition BAUDRATE :: int where "BAUDRATE = 250000"
definition BITS_8 :: int where "BITS_8 = 8"
definition STOP_BITS_2 :: int where "STOP_BITS_2 = 2"
definition PARITY_NONE :: int where "PARITY_NONE = 0"
definition BREAK_OFF :: int where "BREAK_OFF = 0"
definition BREAK_ON :: int where "BREAK_ON = 1"
definition CHANNEL_RANGE :: "int \<times> int" where "CHANNEL_RANGE = (1, 512)"
definition VALUE_RANGE :: "int \<times> int" where "VALUE_RANGE = (0, 255)"

definition emit :: "io \<Rightarrow> FtdiDmxInterface \<Rightarrow> FtdiDmxInterface" where
  "emit c s = s\<lparr>io_trace := io_trace s @ [c]\<rparr>"

text \<open>
  \<^verbatim>\<open>_wait_us\<close> fills a \<^verbatim>\<open>Timespec(seconds, nanoseconds)\<close> and calls \<^verbatim>\<open>nanosleep\<close>.
  The constant the source calls \<^verbatim>\<open>MS_PER_S\<close> is the number of microseconds in a second and
  \<^verbatim>\<open>NS_PER_MS\<close> the number of nanoseconds in a microsecond.
\<close>

definition wait_us :: "int \<Rightarrow> FtdiDmxInterface \<Rightarrow> FtdiDmxInterface" where
  "wait_us microseconds s =
     emit (Nanosleep (microseconds div MS_PER_S) ((microseconds mod MS_PER_S) * NS_PER_MS)) s"

definition wait_ms :: "int \<Rightarrow> FtdiDmxInterface \<Rightarrow> FtdiDmxInterface" where
  "wait_ms milliseconds s = wait_us (milliseconds * US_PER_MS) s"

definition reset :: "FtdiDmxInterface \<Rightarrow> FtdiDmxInterface" where
  "reset s =
     s\<lparr>dmx_channels := replicate (nat (snd CHANNEL_RANGE + 1)) 0,
       highest_updated_channel := snd CHANNEL_RANGE\<rparr>"

definition set_channel :: "int \<Rightarrow> int \<Rightarrow> FtdiDmxInterface \<Rightarrow> unit result" where
  "set_channel channel value s =
     (if \<not> (fst CHANNEL_RANGE \<le> channel \<and> channel \<le> snd CHANNEL_RANGE)
      then (Inl (ValueError (''Channel '' @ str channel @ '' out of range.'')), s)
      else if \<not> (fst VALUE_RANGE \<le> value \<and> value \<le> snd VALUE_RANGE)
      then (Inl (ValueError (''Value '' @ str value @ '' out of range.'')), s)
      else
        (case list_setitem (dmx_channels s) channel value of
           Inl e \<Rightarrow> (Inl e, s)
         | Inr xs \<Rightarrow>
             (Inr (),
              s\<lparr>dmx_channels := xs,
                highest_updated_channel := max (highest_updated_channel s) channel\<rparr>)))"

definition get_channel :: "int \<Rightarrow> FtdiDmxInterface \<Rightarrow> int result" where
  "get_channel channel s =
     (if \<not> (fst CHANNEL_RANGE \<le> channel \<and> channel \<le> snd CHANNEL_RANGE)
      then (Inl (ValueError (''Channel '' @ str channel @ '' out of range.'')), s)
      else
        (case list_getitem (dmx_channels s) channel of
           Inl e \<Rightarrow> (Inl e, s)
         | Inr v \<Rightarrow> (Inr v, s)))"

definition setitem :: "int \<Rightarrow> int \<Rightarrow> FtdiDmxInterface \<Rightarrow> unit result" where
  "setitem key value s = set_channel key value s"

definition getitem :: "int \<Rightarrow> FtdiDmxInterface \<Rightarrow> int result" where
  "getitem key s = get_channel key s"

definition render :: "FtdiDmxInterface \<Rightarrow> unit result" where
  "render s =
     (case bytes (slice_to (dmx_channels s) (highest_updated_channel s + 1)) of
        Inl e \<Rightarrow> (Inl e, s)
      | Inr data \<Rightarrow>
          (let s1 = emit (Ftdi_set_line_property2 BITS_8 STOP_BITS_2 PARITY_NONE BREAK_ON) s;
               s2 = wait_us 96 s1;
               s3 = emit (Ftdi_set_line_property2 BITS_8 STOP_BITS_2 PARITY_NONE BREAK_OFF) s2;
               s4 = wait_us 8 s3;
               s5 = emit (Write data) s4;
               s6 = wait_ms 2 s5
           in (Inr (), s6\<lparr>highest_updated_channel := 0\<rparr>)))"

definition blackout :: "FtdiDmxInterface \<Rightarrow> unit result" where
  "blackout s = render (reset s)"

text \<open>
  \<^verbatim>\<open>__init__\<close>: the device is opened and configured, then \<^verbatim>\<open>blackout()\<close> gives the two
  attributes their first values.
\<close>

definition FtdiDmxInterface_init :: "unit result" where
  "FtdiDmxInterface_init =
     blackout
       (emit (Ftdi_set_line_property BITS_8 STOP_BITS_2 PARITY_NONE)
         (emit (Ftdi_set_baudrate BAUDRATE)
           \<lparr>dmx_channels = [], highest_updated_channel = 0, io_trace = []\<rparr>))"

definition FtdiDmxInterface_del :: "FtdiDmxInterface \<Rightarrow> unit result" where
  "FtdiDmxInterface_del s =
     (case blackout s of
        (Inl e, s') \<Rightarrow> (Inl e, s')
      | (Inr u, s') \<Rightarrow> (Inr (), emit Close s'))"

text \<open>
  The names a \<^verbatim>\<open>FtdiDmxInterface\<close> object answers to: the attributes of the class and the
  three the methods assign.  Looking up any other name raises AttributeError.
\<close>

definition FtdiDmxInterface_dir :: "string list" where
  "FtdiDmxInterface_dir =
     [''LIBC'', ''MS_PER_S'', ''NS_PER_MS'', ''US_PER_MS'', ''BAUDRATE'', ''BITS_8'',
      ''STOP_BITS_2'', ''PARITY_NONE'', ''BREAK_OFF'', ''BREAK_ON'', ''CHANNEL_RANGE'',
      ''VALUE_RANGE'', ''_wait_us'', ''_wait_ms'', ''__init__'', ''__del__'', ''reset'',
      ''set_channel'', ''get_channel'', ''__setitem__'', ''__getitem__'', ''blackout'',
      ''render'', ''_ftdi_device'', ''_dmx_channels'', ''_highest_updated_channel'']"

text \<open>
  \<^verbatim>\<open>obj.name()\<close>: the call of an attribute with no argument.  The methods that take only
  \<^verbatim>\<open>self\<close> run; another name of the list cannot be called this way and raises TypeError; a
  name the object does not have raises AttributeError at the lookup.  The names every
  Python object inherits are not in the list; \<^verbatim>\<open>stop\<close>, the one name the program calls
  this way, is not among them.
\<close>

definition call0 :: "string \<Rightarrow> FtdiDmxInterface \<Rightarrow> unit result" where
  "call0 name s =
     (if name \<notin> set FtdiDmxInterface_dir then (Inl (AttributeError name), s)
      else if name = ''reset'' then (Inr (), reset s)
      else if name = ''blackout'' then blackout s
      else if name = ''render'' then render s
      else if name = ''__del__'' then FtdiDmxInterface_del s
      else if name = ''__init__'' then
        blackout
          (emit (Ftdi_set_line_property BITS_8 STOP_BITS_2 PARITY_NONE)
            (emit (Ftdi_set_baudrate BAUDRATE) s))
      else (Inl (TypeError name), s))"

text \<open>
  The calls made between an earlier state and a later one, and the packets written to the
  device among them.
\<close>

definition packets :: "io list \<Rightarrow> int list list" where
  "packets tr = concat (map (\<lambda>c. case c of Write d \<Rightarrow> [d] | _ \<Rightarrow> []) tr)"

definition io_since :: "FtdiDmxInterface \<Rightarrow> FtdiDmxInterface \<Rightarrow> io list" where
  "io_since s s' = drop (length (io_trace s)) (io_trace s')"

definition transmitted :: "FtdiDmxInterface \<Rightarrow> FtdiDmxInterface \<Rightarrow> int list list" where
  "transmitted s s' = packets (io_since s s')"

text \<open>The nanoseconds a \<^verbatim>\<open>nanosleep\<close> call asks for.\<close>

definition requested_ns :: "io \<Rightarrow> int" where
  "requested_ns c = (case c of Nanosleep sec nsec \<Rightarrow> sec * 1000000000 + nsec | _ \<Rightarrow> 0)"

text \<open>
  The layout of the universe: 513 slots, slot 0 the start code, every slot a byte, and the
  mark of the highest touched channel within the buffer.
\<close>

definition universe_inv :: "FtdiDmxInterface \<Rightarrow> bool" where
  "universe_inv s \<longleftrightarrow>
     length (dmx_channels s) = 513 \<and>
     dmx_channels s ! 0 = 0 \<and>
     (\<forall>x \<in> set (dmx_channels s). 0 \<le> x \<and> x \<le> 255) \<and>
     0 \<le> highest_updated_channel s \<and> highest_updated_channel s \<le> 512"

section \<open>DmxController\<close>

text \<open>
  A frame and a program are Python dicts, which iterate in insertion order: association
  lists.  The times of a program are Python floats.  A float is taken as the real number it
  stands for, so that floats are ordered as reals are (the infinities and NaN, which a key
  of a program may also be, are left out); the sum and the difference of two
  floats are rounded by the machine and are not those of the reals: they belong to the
  environment below.
\<close>

type_synonym frame = "(int \<times> int) list"
type_synonym program = "(real \<times> frame) list"

text \<open>
  The standard library's \<^verbatim>\<open>sched.scheduler\<close>: a priority queue of events compared by
  \<^verbatim>\<open>(time, priority, sequence)\<close>, where \<^verbatim>\<open>sequence\<close> counts the events entered so far.
  The action of every event of this program is \<^verbatim>\<open>_scheduler_callback\<close>, so an event keeps
  only the argument of the call.
\<close>

record event =
  time :: real
  priority :: nat
  sequence :: nat
  argument :: frame

record sched =
  queue :: "event list"
  sequence_generator :: nat

record DmxController =
  interface :: FtdiDmxInterface
  program :: "program option"
  scheduler :: sched

definition key :: "event \<Rightarrow> real \<times> nat \<times> nat" where
  "key e = (time e, priority e, sequence e)"

definition enterabs :: "real \<Rightarrow> nat \<Rightarrow> frame \<Rightarrow> sched \<Rightarrow> sched" where
  "enterabs t prio arg sch =
     sch\<lparr>queue := queue sch @
            [\<lparr>time = t, priority = prio, sequence = sequence_generator sch, argument = arg\<rparr>],
         sequence_generator := Suc (sequence_generator sch)\<rparr>"

text \<open>
  The clock and the arithmetic of the machine are the environment of a run.  \<open>fadd\<close> and
  \<open>fsub\<close> are \<^verbatim>\<open>+\<close> and \<^verbatim>\<open>-\<close> on Python floats, of which nothing is assumed here.
  \<open>delayfunc d\<close> is what \<^verbatim>\<open>time.sleep(d)\<close> does: \<open>None\<close> when it returns, the exception
  when it raises.  \<open>start\<close> is what \<^verbatim>\<open>time.time()\<close> reads at the first \<^verbatim>\<open>enter\<close>, and
  \<open>advance n a r\<close> is what it reads after the activity \<open>a\<close>, the \<open>n\<close>-th of the run, when
  it read \<open>r\<close> before: one call of \<^verbatim>\<open>enter\<close>, one sleep of the given length, or one action
  of an event.
\<close>

datatype activity = Enter | Sleep real | Action

record env =
  fadd :: "real \<Rightarrow> real \<Rightarrow> real"
  fsub :: "real \<Rightarrow> real \<Rightarrow> real"
  delayfunc :: "real \<Rightarrow> error option"
  start :: real
  advance :: "nat \<Rightarrow> activity \<Rightarrow> real \<Rightarrow> real"

text \<open>What the clock reads at the \<open>i\<close>-th call of \<^verbatim>\<open>enter\<close>.\<close>

fun reading :: "env \<Rightarrow> nat \<Rightarrow> real" where
  "reading env 0 = start env"
| "reading env (Suc i) = advance env i Enter (reading env i)"

text \<open>
  \<^verbatim>\<open>enter(delay, priority, action, argument)\<close> reads the clock and enters the event at
  \<^verbatim>\<open>timefunc() + delay\<close>, a sum of floats.  The reading of the clock is the parameter
  \<open>now\<close>.
\<close>

definition enter :: "env \<Rightarrow> real \<Rightarrow> real \<Rightarrow> nat \<Rightarrow> frame \<Rightarrow> sched \<Rightarrow> sched" where
  "enter env now delay prio arg sch = enterabs (fadd env now delay) prio arg sch"

text \<open>Taking the least event off the queue, as \<^verbatim>\<open>heapq.heappop\<close> does.\<close>

definition heappop :: "event list \<Rightarrow> event \<times> event list" where
  "heappop q = (let e = arg_min_list key q in (e, remove1 e q))"

definition DmxController_init :: DmxController where
  "DmxController_init =
     \<lparr>interface = snd FtdiDmxInterface_init,
      program = None,
      scheduler = \<lparr>queue = [], sequence_generator = 0\<rparr>\<rparr>"

text \<open>
  \<^verbatim>\<open>load\<close> of a program that is already a dict of floats to dicts of ints: the conversions
  \<^verbatim>\<open>float\<close> and \<^verbatim>\<open>int\<close> of the comprehension leave it as it is.  No value is checked.
\<close>

definition load :: "program \<Rightarrow> DmxController \<Rightarrow> DmxController" where
  "load p c = c\<lparr>program := Some p\<rparr>"

text \<open>The loop of \<^verbatim>\<open>_scheduler_callback\<close> over the items of a frame.\<close>

fun set_items :: "frame \<Rightarrow> FtdiDmxInterface \<Rightarrow> unit result" where
  "set_items [] s = (Inr (), s)"
| "set_items ((channel, value) # rest) s =
     (case setitem channel value s of
        (Inl e, s') \<Rightarrow> (Inl e, s')
      | (Inr u, s') \<Rightarrow> set_items rest s')"

definition scheduler_callback :: "frame \<Rightarrow> FtdiDmxInterface \<Rightarrow> unit result" where
  "scheduler_callback data s =
     (case set_items data s of
        (Inl e, s') \<Rightarrow> (Inl e, s')
      | (Inr u, s') \<Rightarrow> render s')"

text \<open>
  The loop of \<^verbatim>\<open>run\<close> that enters one event for each item of the program, the item of
  index \<open>i\<close> at the \<open>i\<close>-th reading of the clock.
\<close>

fun enter_program :: "env \<Rightarrow> nat \<Rightarrow> program \<Rightarrow> sched \<Rightarrow> sched" where
  "enter_program env i [] sch = sch"
| "enter_program env i ((delay, data) # rest) sch =
     enter_program env (Suc i) rest (enter env (reading env i) delay i data sch)"

text \<open>
  \<^verbatim>\<open>scheduler.run()\<close>.  While the queue is not empty, the loop looks at the least event and
  reads the clock.  If the time of the event is still ahead it calls
  \<^verbatim>\<open>delayfunc(time - now)\<close>, which is \<^verbatim>\<open>time.sleep\<close> and may raise, and looks again.
  Otherwise it takes the event off the queue, calls its action and then \<^verbatim>\<open>delayfunc(0)\<close>.
  An exception leaves the loop at once, with the queue as it is at that moment.  Nothing
  bounds the number of rounds, so the loop is a partial function: \<open>None\<close> is a run that
  never ends.  \<open>n\<close> counts the activities of the run and \<open>now\<close> is the clock.
\<close>

partial_function (option) run_queue ::
  "env \<Rightarrow> nat \<Rightarrow> real \<Rightarrow> event list \<Rightarrow> FtdiDmxInterface \<Rightarrow>
     ((error + unit) \<times> event list \<times> FtdiDmxInterface) option"
where
  "run_queue env n now q s =
     (if q = [] then Some (Inr (), q, s)
      else if now < time (fst (heappop q)) then
        (case delayfunc env (fsub env (time (fst (heappop q))) now) of
           Some err \<Rightarrow> Some (Inl err, q, s)
         | None \<Rightarrow>
             run_queue env (Suc n)
               (advance env n (Sleep (fsub env (time (fst (heappop q))) now)) now) q s)
      else
        (case scheduler_callback (argument (fst (heappop q))) s of
           (Inl err, s') \<Rightarrow> Some (Inl err, snd (heappop q), s')
         | (Inr u, s') \<Rightarrow>
             (case delayfunc env 0 of
                Some err \<Rightarrow> Some (Inl err, snd (heappop q), s')
              | None \<Rightarrow>
                  run_queue env (Suc n) (advance env n Action now) (snd (heappop q)) s')))"

definition scheduler_run ::
  "env \<Rightarrow> nat \<Rightarrow> real \<Rightarrow> DmxController \<Rightarrow> ((error + unit) \<times> DmxController) option"
where
  "scheduler_run env n now c =
     (case run_queue env n now (queue (scheduler c)) (interface c) of
        None \<Rightarrow> None
      | Some (r, q, s) \<Rightarrow> Some (r, c\<lparr>interface := s, scheduler := (scheduler c)\<lparr>queue := q\<rparr>\<rparr>))"

text \<open>
  \<^verbatim>\<open>run\<close>: the loop of \<^verbatim>\<open>enter\<close> has read the clock once for each item, so the loop of the
  scheduler starts as activity \<open>length p\<close>, at the reading of that index.
\<close>

definition run :: "env \<Rightarrow> DmxController \<Rightarrow> ((error + unit) \<times> DmxController) option" where
  "run env c =
     (case program c of
        None \<Rightarrow> Some (Inl (RuntimeError ''No program loaded.''), c)
      | Some p \<Rightarrow>
          (case scheduler_run env (length p) (reading env (length p))
                  (c\<lparr>scheduler := enter_program env 0 p (scheduler c)\<rparr>) of
             None \<Rightarrow> None
           | Some (Inl e, c') \<Rightarrow> Some (Inl e, c')
           | Some (Inr u, c') \<Rightarrow>
               (case call0 ''stop'' (interface c') of
                  (r, s) \<Rightarrow> Some (r, c'\<lparr>interface := s\<rparr>))))"

text \<open>A frame, and a program, whose every channel and value \<^verbatim>\<open>set_channel\<close> accepts.\<close>

definition valid_frame :: "frame \<Rightarrow> bool" where
  "valid_frame data \<longleftrightarrow>
     (\<forall>(channel, value) \<in> set data. 1 \<le> channel \<and> channel \<le> 512 \<and> 0 \<le> value \<and> value \<le> 255)"

definition valid_program :: "program \<Rightarrow> bool" where
  "valid_program p \<longleftrightarrow> (\<forall>(t, data) \<in> set p. valid_frame data)"

text \<open>
  What one event is claimed to do to the interface: every pair of the frame stored by
  \<^verbatim>\<open>set_channel\<close>, in the order of the frame, then a single \<^verbatim>\<open>render\<close>.
\<close>

definition event_effect :: "frame \<Rightarrow> FtdiDmxInterface \<Rightarrow> FtdiDmxInterface" where
  "event_effect data s =
     snd (render (fold (\<lambda>(channel, value) s'. snd (set_channel channel value s')) data s))"

text \<open>
  What a run needs of its environment for every event to fire.  An action does not set
  the clock back; a sleep until \<open>t\<close> that returns ends with the clock at \<open>t\<close> or later; and
  \<^verbatim>\<open>time.sleep\<close> accepts the wait for the time \<open>t\<close> from every reading between \<open>r0\<close> and \<open>t\<close>.
\<close>

definition clock_keeps_on :: "env \<Rightarrow> bool" where
  "clock_keeps_on env \<longleftrightarrow> (\<forall>n r. r \<le> advance env n Action r)"

definition sleep_lasts :: "env \<Rightarrow> bool" where
  "sleep_lasts env \<longleftrightarrow> (\<forall>n r t. r < t \<longrightarrow> t \<le> advance env n (Sleep (fsub env t r)) r)"

definition can_wait_for :: "env \<Rightarrow> real \<Rightarrow> real \<Rightarrow> bool" where
  "can_wait_for env r0 t \<longleftrightarrow> (\<forall>r. r0 \<le> r \<and> r < t \<longrightarrow> delayfunc env (fsub env t r) = None)"

text \<open>
  An environment for the examples.  The arithmetic is exact.  The clock starts at \<open>t0\<close>,
  moves by \<open>dt\<close> over each \<^verbatim>\<open>enter\<close> and by \<open>d\<close> over a sleep of \<open>d\<close>, and stands still
  over an action.  \<^verbatim>\<open>time.sleep\<close> refuses a negative length and a length beyond the
  nanoseconds a signed 64-bit integer holds, as CPython does.
\<close>

definition time_sleep :: "real \<Rightarrow> error option" where
  "time_sleep d =
     (if d < 0 then Some (ValueError ''sleep length must be non-negative'')
      else if 9223372036 < d then Some (OverflowError ''timestamp too large to convert to C PyTime_t'')
      else None)"

definition exact_env :: "real \<Rightarrow> real \<Rightarrow> env" where
  "exact_env t0 dt =
     \<lparr>fadd = (\<lambda>a b. a + b),
      fsub = (\<lambda>a b. a - b),
      delayfunc = time_sleep,
      start = t0,
      advance = (\<lambda>n a r. case a of Enter \<Rightarrow> r + dt | Sleep d \<Rightarrow> r + d | Action \<Rightarrow> r)\<rparr>"

text \<open>
  A second environment, with the rounding of the machine where the examples need it.  A
  double between \<open>2^30\<close> and \<open>2^31\<close>, as the seconds since 1970 are today, is a multiple of
  \<open>2^-22\<close>, and the sum of two floats is the multiple nearest to their exact sum as long as
  it stays in that range.  The difference of two floats within a factor of two of each other
  is exact.  The clock stands still but for the sleeps.
\<close>

definition double_env :: "real \<Rightarrow> env" where
  "double_env t0 =
     \<lparr>fadd = (\<lambda>a b. of_int (round ((a + b) * 4194304)) / 4194304),
      fsub = (\<lambda>a b. a - b),
      delayfunc = time_sleep,
      start = t0,
      advance = (\<lambda>n a r. case a of Enter \<Rightarrow> r | Sleep d \<Rightarrow> r + d | Action \<Rightarrow> r)\<rparr>"

section \<open>Properties of the universe\<close>

lemmas constants =
  MS_PER_S_def NS_PER_MS_def US_PER_MS_def BAUDRATE_def BITS_8_def STOP_BITS_2_def
  PARITY_NONE_def BREAK_OFF_def BREAK_ON_def CHANNEL_RANGE_def VALUE_RANGE_def

lemma render_ok:
  assumes "universe_inv s"
  shows "render s =
    (Inr (),
     s\<lparr>io_trace := io_trace s @
          [Ftdi_set_line_property2 8 2 0 1, Nanosleep 0 96000,
           Ftdi_set_line_property2 8 2 0 0, Nanosleep 0 8000,
           Write (take (nat (highest_updated_channel s + 1)) (dmx_channels s)),
           Nanosleep 0 2000000],
       highest_updated_channel := 0\<rparr>)"
proof -
  have b: "bytes (slice_to (dmx_channels s) (highest_updated_channel s + 1)) =
      Inr (take (nat (highest_updated_channel s + 1)) (dmx_channels s))"
    using assms by (auto simp: bytes_def slice_to_def universe_inv_def dest!: in_set_takeD)
  show ?thesis
    by (simp add: render_def b emit_def wait_us_def wait_ms_def constants)
qed

lemma set_channel_ok:
  assumes "length (dmx_channels s) = 513" "1 \<le> channel" "channel \<le> 512" "0 \<le> value" "value \<le> 255"
  shows "set_channel channel value s =
    (Inr (), s\<lparr>dmx_channels := (dmx_channels s)[nat channel := value],
               highest_updated_channel := max (highest_updated_channel s) channel\<rparr>)"
  using assms by (simp add: set_channel_def list_setitem_def list_index_def constants)

lemma get_channel_ok:
  assumes "length (dmx_channels s) = 513" "1 \<le> channel" "channel \<le> 512"
  shows "get_channel channel s = (Inr (dmx_channels s ! nat channel), s)"
  using assms by (simp add: get_channel_def list_getitem_def list_index_def constants)

lemma set_channel_bad_channel:
  assumes "\<not> (1 \<le> channel \<and> channel \<le> 512)"
  shows "set_channel channel value s =
    (Inl (ValueError (''Channel '' @ str channel @ '' out of range.'')), s)"
  using assms by (simp add: set_channel_def constants)

lemma set_channel_bad_value:
  assumes "1 \<le> channel" "channel \<le> 512" "\<not> (0 \<le> value \<and> value \<le> 255)"
  shows "set_channel channel value s =
    (Inl (ValueError (''Value '' @ str value @ '' out of range.'')), s)"
  using assms by (simp add: set_channel_def constants)

lemma get_channel_bad_channel:
  assumes "\<not> (1 \<le> channel \<and> channel \<le> 512)"
  shows "get_channel channel s =
    (Inl (ValueError (''Channel '' @ str channel @ '' out of range.'')), s)"
  using assms by (simp add: get_channel_def constants)

lemma snd_get_channel [simp]: "snd (get_channel channel s) = s"
  by (simp add: get_channel_def split: sum.splits)

lemma set_channel_mono:
  "highest_updated_channel s \<le> highest_updated_channel (snd (set_channel channel value s))"
  by (simp add: set_channel_def split: sum.splits)

lemma set_channel_layout:
  "length (dmx_channels (snd (set_channel channel value s))) = length (dmx_channels s)"
  by (auto simp: set_channel_def list_setitem_def list_index_def split: sum.splits if_splits)

lemma universe_inv_reset: "universe_inv (reset s)"
  by (simp add: universe_inv_def reset_def constants)

lemma universe_inv_set_channel:
  assumes "universe_inv s"
  shows "universe_inv (snd (set_channel channel value s))"
proof (cases "1 \<le> channel \<and> channel \<le> 512 \<and> 0 \<le> value \<and> value \<le> 255")
  case True
  with assms have "set_channel channel value s =
    (Inr (), s\<lparr>dmx_channels := (dmx_channels s)[nat channel := value],
               highest_updated_channel := max (highest_updated_channel s) channel\<rparr>)"
    by (intro set_channel_ok) (auto simp: universe_inv_def)
  moreover have "\<forall>x \<in> set ((dmx_channels s)[nat channel := value]). 0 \<le> x \<and> x \<le> 255"
    using assms True by (auto simp: universe_inv_def dest!: set_update_subset_insert [THEN subsetD])
  ultimately show ?thesis
    using assms True by (auto simp: universe_inv_def)
next
  case False
  then have "snd (set_channel channel value s) = s"
    by (auto simp: set_channel_def constants)
  with assms show ?thesis by simp
qed

lemma universe_inv_render:
  assumes "universe_inv s"
  shows "universe_inv (snd (render s))"
  using assms by (simp add: render_ok) (simp add: universe_inv_def)

lemma universe_inv_blackout: "universe_inv (snd (blackout s))"
  unfolding blackout_def by (rule universe_inv_render) (rule universe_inv_reset)

lemma universe_inv_init: "universe_inv (snd FtdiDmxInterface_init)"
  unfolding FtdiDmxInterface_init_def by (rule universe_inv_blackout)

lemma io_since_render:
  assumes "universe_inv s"
  shows "io_since s (snd (render s)) =
    [Ftdi_set_line_property2 8 2 0 1, Nanosleep 0 96000,
     Ftdi_set_line_property2 8 2 0 0, Nanosleep 0 8000,
     Write (take (nat (highest_updated_channel s + 1)) (dmx_channels s)),
     Nanosleep 0 2000000]"
  using assms by (simp add: render_ok io_since_def)

lemma transmitted_render:
  assumes "universe_inv s"
  shows "transmitted s (snd (render s)) =
    [take (nat (highest_updated_channel s + 1)) (dmx_channels s)]"
  using assms by (simp add: transmitted_def io_since_render packets_def)

lemma render_reset:
  "transmitted (reset s) (snd (render (reset s))) = [replicate 513 0]"
  by (simp add: transmitted_render universe_inv_reset) (simp add: reset_def constants)

lemma blackout_fields:
  "fst (blackout s) = Inr ()"
  "highest_updated_channel (snd (blackout s)) = 0"
  "dmx_channels (snd (blackout s)) = replicate 513 0"
  "io_since s (snd (blackout s)) =
    [Ftdi_set_line_property2 8 2 0 1, Nanosleep 0 96000,
     Ftdi_set_line_property2 8 2 0 0, Nanosleep 0 8000,
     Write (replicate 513 0), Nanosleep 0 2000000]"
  unfolding blackout_def
  by (simp_all add: render_ok universe_inv_reset io_since_def) (simp_all add: reset_def constants)

lemma render_after_blackout:
  "transmitted (snd (blackout s)) (snd (render (snd (blackout s)))) = [[0]]"
  by (simp add: transmitted_render universe_inv_blackout blackout_fields)

lemma str_examples:
  "str 0 = ''0''" "str 513 = ''513''" "str 256 = ''256''" "str (- 1) = ''-1''"
  by (simp_all add: str_def digits.simps)

lemma render_fields:
  assumes "universe_inv s"
  shows "fst (render s) = Inr ()"
    and "highest_updated_channel (snd (render s)) = 0"
    and "dmx_channels (snd (render s)) = dmx_channels s"
  using assms by (simp_all add: render_ok)

section \<open>Properties of the scheduler\<close>

lemma io_trace_set_channel [simp]:
  "io_trace (snd (set_channel channel value s)) = io_trace s"
  by (simp add: set_channel_def split: sum.splits)

lemma set_items_ok:
  assumes "valid_frame data" and "universe_inv s"
  shows "set_items data s =
      (Inr (), fold (\<lambda>(channel, value) s'. snd (set_channel channel value s')) data s) \<and>
    universe_inv (fold (\<lambda>(channel, value) s'. snd (set_channel channel value s')) data s) \<and>
    io_trace (fold (\<lambda>(channel, value) s'. snd (set_channel channel value s')) data s) = io_trace s"
  using assms
proof (induction data arbitrary: s)
  case Nil
  then show ?case by simp
next
  case (Cons cv rest)
  obtain channel val where cv: "cv = (channel, val)" by (cases cv)
  from Cons.prems(1) have ok: "1 \<le> channel" "channel \<le> 512" "0 \<le> val" "val \<le> 255"
    and rest: "valid_frame rest"
    by (auto simp: valid_frame_def cv)
  from Cons.prems(2) have len: "length (dmx_channels s) = 513"
    by (simp add: universe_inv_def)
  have "fst (set_channel channel val s) = Inr ()"
    using set_channel_ok [OF len ok] by simp
  then have step: "set_items ((channel, val) # rest) s = set_items rest (snd (set_channel channel val s))"
    by (cases "set_channel channel val s") (simp add: setitem_def)
  have inv: "universe_inv (snd (set_channel channel val s))"
    using Cons.prems(2) by (rule universe_inv_set_channel)
  show ?case
    using Cons.IH [OF rest inv] unfolding cv by (simp add: step del: set_items.simps)
qed

lemma scheduler_callback_ok:
  assumes "valid_frame data" and "universe_inv s"
  shows "scheduler_callback data s = (Inr (), event_effect data s)"
    and "universe_inv (event_effect data s)"
    and "io_trace (event_effect data s) = io_trace s @
      [Ftdi_set_line_property2 8 2 0 1, Nanosleep 0 96000,
       Ftdi_set_line_property2 8 2 0 0, Nanosleep 0 8000,
       Write (take (nat (highest_updated_channel
                 (fold (\<lambda>(channel, value) s'. snd (set_channel channel value s')) data s) + 1))
               (dmx_channels
                 (fold (\<lambda>(channel, value) s'. snd (set_channel channel value s')) data s))),
       Nanosleep 0 2000000]"
proof -
  let ?s' = "fold (\<lambda>(channel, value) s'. snd (set_channel channel value s')) data s"
  from set_items_ok [OF assms]
  have items: "set_items data s = (Inr (), ?s')" and inv: "universe_inv ?s'"
    and tr: "io_trace ?s' = io_trace s"
    by simp_all
  have r: "render ?s' = (Inr (), event_effect data s)"
    using render_fields(1) [OF inv] by (cases "render ?s'") (simp add: event_effect_def)
  show "scheduler_callback data s = (Inr (), event_effect data s)"
    by (simp add: scheduler_callback_def items r)
  show "universe_inv (event_effect data s)"
    unfolding event_effect_def using inv by (rule universe_inv_render)
  show "io_trace (event_effect data s) = io_trace s @
      [Ftdi_set_line_property2 8 2 0 1, Nanosleep 0 96000,
       Ftdi_set_line_property2 8 2 0 0, Nanosleep 0 8000,
       Write (take (nat (highest_updated_channel ?s' + 1)) (dmx_channels ?s')),
       Nanosleep 0 2000000]"
    unfolding event_effect_def by (simp add: render_ok [OF inv] tr)
qed

lemma transmitted_event_effect:
  assumes "valid_frame data" and "universe_inv s"
  shows "length (transmitted s (event_effect data s)) = 1"
  by (simp add: transmitted_def io_since_def scheduler_callback_ok(3) [OF assms] packets_def)

lemma heappop_least:
  assumes "q \<noteq> []"
  shows "fst (heappop q) \<in> set q"
    and "mset (snd (heappop q)) + {#fst (heappop q)#} = mset q"
    and "\<forall>e \<in> set q. key (fst (heappop q)) \<le> key e"
proof -
  have in_q: "arg_min_list key q \<in> set q"
    using assms by (rule arg_min_list_in)
  then show "fst (heappop q) \<in> set q"
    by (simp add: heappop_def Let_def)
  show "mset (snd (heappop q)) + {#fst (heappop q)#} = mset q"
    using in_q by (simp add: heappop_def Let_def)
  have "key (arg_min_list key q) = Min (key ` set q)"
    using assms by (rule f_arg_min_list_f)
  then show "\<forall>e \<in> set q. key (fst (heappop q)) \<le> key e"
    by (simp add: heappop_def Let_def)
qed

lemma run_queue_Nil: "run_queue env n now [] s = Some (Inr (), [], s)"
  by (subst run_queue.simps) simp

lemma run_queue_wait:
  assumes "q \<noteq> []" and "now < time (fst (heappop q))"
    and "delayfunc env (fsub env (time (fst (heappop q))) now) = None"
  shows "run_queue env n now q s =
    run_queue env (Suc n) (advance env n (Sleep (fsub env (time (fst (heappop q))) now)) now) q s"
  using assms by (subst run_queue.simps) simp

lemma run_queue_refused:
  assumes "q \<noteq> []" and "now < time (fst (heappop q))"
    and "delayfunc env (fsub env (time (fst (heappop q))) now) = Some err"
  shows "run_queue env n now q s = Some (Inl err, q, s)"
  using assms by (subst run_queue.simps) simp

lemma run_queue_due:
  assumes "q \<noteq> []" and "\<not> now < time (fst (heappop q))"
    and "scheduler_callback (argument (fst (heappop q))) s = (Inr (), s')"
    and "delayfunc env 0 = None"
  shows "run_queue env n now q s =
    run_queue env (Suc n) (advance env n Action now) (snd (heappop q)) s'"
  using assms by (subst run_queue.simps) simp

lemma run_queue_raised:
  assumes "q \<noteq> []" and "\<not> now < time (fst (heappop q))"
    and "scheduler_callback (argument (fst (heappop q))) s = (Inl err, s')"
  shows "run_queue env n now q s = Some (Inl err, snd (heappop q), s')"
  using assms by (subst run_queue.simps) simp

lemma run_queue_ok:
  assumes "universe_inv s" and "\<forall>e \<in> set q. valid_frame (argument e)"
    and "clock_keeps_on env" and "sleep_lasts env" and "delayfunc env 0 = None"
    and "\<forall>e \<in> set q. can_wait_for env r0 (time e)" and "r0 \<le> now"
  shows "\<exists>es. mset es = mset q \<and> sorted (map key es) \<and>
    run_queue env n now q s = Some (Inr (), [], fold (\<lambda>e. event_effect (argument e)) es s)"
  using assms(1,2,6,7)
proof (induction "length q" arbitrary: q n now s)
  case 0
  then have "q = []" by simp
  then show ?case
    by (intro exI [of _ "[]"]) (simp add: run_queue_Nil)
next
  case (Suc m)
  then have ne: "q \<noteq> []" by auto
  let ?e = "fst (heappop q)"
  let ?q' = "snd (heappop q)"
  let ?s' = "event_effect (argument ?e) s"
  note pop = heappop_least [OF ne]
  have valid_e: "valid_frame (argument ?e)"
    using pop(1) Suc.prems(2) by blast
  have cb: "scheduler_callback (argument ?e) s = (Inr (), ?s')"
    and inv': "universe_inv ?s'"
    using scheduler_callback_ok [OF valid_e Suc.prems(1)] by simp_all
  have sub: "set ?q' \<subseteq> set q"
    by (simp add: heappop_def Let_def set_remove1_subset)
  have valid': "\<forall>e \<in> set ?q'. valid_frame (argument e)"
    using sub Suc.prems(2) by blast
  have wait': "\<forall>e \<in> set ?q'. can_wait_for env r0 (time e)"
    using sub Suc.prems(3) by blast
  have "size (mset ?q' + {#?e#}) = size (mset q)"
    by (simp only: pop(2))
  then have len: "m = length ?q'"
    using Suc.hyps(2) by simp
  have "\<exists>n1 now1. r0 \<le> now1 \<and> run_queue env n now q s = run_queue env n1 now1 ?q' ?s'"
  proof (cases "now < time ?e")
    case True
    let ?d = "fsub env (time ?e) now"
    let ?now1 = "advance env n (Sleep ?d) now"
    have "can_wait_for env r0 (time ?e)"
      using pop(1) Suc.prems(3) by blast
    with True Suc.prems(4) have ok: "delayfunc env ?d = None"
      by (simp add: can_wait_for_def)
    have reach: "time ?e \<le> ?now1"
      using assms(4) True by (simp add: sleep_lasts_def)
    then have due: "\<not> ?now1 < time ?e" by simp
    have "run_queue env n now q s = run_queue env (Suc n) ?now1 q s"
      using ne True ok by (rule run_queue_wait)
    also have "\<dots> = run_queue env (Suc (Suc n)) (advance env (Suc n) Action ?now1) ?q' ?s'"
      using ne due cb assms(5) by (rule run_queue_due)
    finally have "run_queue env n now q s =
        run_queue env (Suc (Suc n)) (advance env (Suc n) Action ?now1) ?q' ?s'" .
    moreover have "?now1 \<le> advance env (Suc n) Action ?now1"
      using assms(3) by (simp add: clock_keeps_on_def)
    then have "r0 \<le> advance env (Suc n) Action ?now1"
      using reach True Suc.prems(4) by linarith
    ultimately show ?thesis by blast
  next
    case False
    have "run_queue env n now q s = run_queue env (Suc n) (advance env n Action now) ?q' ?s'"
      using ne False cb assms(5) by (rule run_queue_due)
    moreover have "now \<le> advance env n Action now"
      using assms(3) by (simp add: clock_keeps_on_def)
    then have "r0 \<le> advance env n Action now"
      using Suc.prems(4) by linarith
    ultimately show ?thesis by blast
  qed
  then obtain n1 now1 where now1: "r0 \<le> now1"
    and step: "run_queue env n now q s = run_queue env n1 now1 ?q' ?s'"
    by blast
  from Suc.hyps(1) [OF len inv' valid' wait' now1, of n1]
  obtain es where es: "mset es = mset ?q'" "sorted (map key es)"
    "run_queue env n1 now1 ?q' ?s' = Some (Inr (), [], fold (\<lambda>e. event_effect (argument e)) es ?s')"
    by blast
  have "set es = set ?q'"
    using es(1) by (rule mset_eq_setD)
  then have least: "\<forall>x \<in> set es. key ?e \<le> key x"
    using pop(3) sub by blast
  have "mset (?e # es) = mset q"
    using es(1) pop(2) by simp
  moreover have "sorted (map key (?e # es))"
    using es(2) least by simp
  moreover have "run_queue env n now q s =
      Some (Inr (), [], fold (\<lambda>e. event_effect (argument e)) (?e # es) s)"
    by (simp add: step es(3))
  ultimately show ?case by blast
qed

lemma enter_program_queue:
  "enter_program env i p sch =
     \<lparr>queue = queue sch @
        map (\<lambda>(j, (delay, data)).
              \<lparr>time = fadd env (reading env j) delay, priority = j,
               sequence = sequence_generator sch + (j - i), argument = data\<rparr>)
          (enumerate i p),
      sequence_generator = sequence_generator sch + length p\<rparr>"
proof (induction p arbitrary: i sch)
  case Nil
  then show ?case by simp
next
  case (Cons x p)
  obtain delay data where x: "x = (delay, data)" by (cases x)
  have "map (\<lambda>(j, (delay, data)).
              \<lparr>time = fadd env (reading env j) delay, priority = j,
               sequence = Suc (sequence_generator sch) + (j - Suc i), argument = data\<rparr>)
          (enumerate (Suc i) p) =
        map (\<lambda>(j, (delay, data)).
              \<lparr>time = fadd env (reading env j) delay, priority = j,
               sequence = sequence_generator sch + (j - i), argument = data\<rparr>)
          (enumerate (Suc i) p)"
    by (rule map_cong) (auto simp: in_set_enumerate_eq)
  then show ?case
    by (simp add: x Cons.IH enter_def enterabs_def)
qed

lemma fold_event_effect:
  assumes "universe_inv s" and "\<forall>e \<in> set es. valid_frame (argument e)"
  shows "universe_inv (fold (\<lambda>e. event_effect (argument e)) es s) \<and>
    (\<exists>tr. io_trace (fold (\<lambda>e. event_effect (argument e)) es s) = io_trace s @ tr \<and>
          length (packets tr) = length es)"
  using assms
proof (induction es arbitrary: s)
  case Nil
  then show ?case by (simp add: packets_def)
next
  case (Cons e es)
  let ?s' = "event_effect (argument e) s"
  from Cons.prems have v: "valid_frame (argument e)" by simp
  note cb = scheduler_callback_ok [OF v Cons.prems(1)]
  from Cons.prems(2) have rest: "\<forall>e \<in> set es. valid_frame (argument e)" by simp
  from Cons.IH [OF cb(2) rest]
  obtain tr where inv: "universe_inv (fold (\<lambda>e. event_effect (argument e)) es ?s')"
    and tr: "io_trace (fold (\<lambda>e. event_effect (argument e)) es ?s') = io_trace ?s' @ tr"
    and len: "length (packets tr) = length es"
    by blast
  obtain d where one: "io_trace ?s' = io_trace s @
      [Ftdi_set_line_property2 8 2 0 1, Nanosleep 0 96000,
       Ftdi_set_line_property2 8 2 0 0, Nanosleep 0 8000, Write d, Nanosleep 0 2000000]"
    using cb(3) by blast
  have "io_trace (fold (\<lambda>e. event_effect (argument e)) (e # es) s) = io_trace s @
      ([Ftdi_set_line_property2 8 2 0 1, Nanosleep 0 96000,
        Ftdi_set_line_property2 8 2 0 0, Nanosleep 0 8000, Write d, Nanosleep 0 2000000] @ tr)"
    by (simp add: tr one)
  moreover have "length (packets
      ([Ftdi_set_line_property2 8 2 0 1, Nanosleep 0 96000,
        Ftdi_set_line_property2 8 2 0 0, Nanosleep 0 8000, Write d, Nanosleep 0 2000000] @ tr)) =
      length (e # es)"
    using len by (simp add: packets_def)
  ultimately show ?case
    using inv by auto
qed

lemma transmitted_fold_event_effect:
  assumes "universe_inv s" and "\<forall>e \<in> set es. valid_frame (argument e)"
  shows "length (transmitted s (fold (\<lambda>e. event_effect (argument e)) es s)) = length es"
proof -
  from fold_event_effect [OF assms]
  obtain tr where "io_trace (fold (\<lambda>e. event_effect (argument e)) es s) = io_trace s @ tr"
    and "length (packets tr) = length es"
    by blast
  then show ?thesis
    by (simp add: transmitted_def io_since_def)
qed

lemma key_order:
  assumes "sorted (map key es)" and "distinct (map priority es)"
  shows "sorted_wrt (\<lambda>a b. time a < time b \<or> (time a = time b \<and> priority a < priority b)) es"
  using assms
proof (induction es)
  case Nil
  then show ?case by simp
next
  case (Cons e es)
  have "time e < time x \<or> (time e = time x \<and> priority e < priority x)" if "x \<in> set es" for x
  proof -
    from Cons.prems(1) that have "key e \<le> key x" by auto
    moreover from Cons.prems(2) that have "priority e \<noteq> priority x" by auto
    ultimately show ?thesis
      by (auto simp: key_def less_eq_prod_def less_prod_def)
  qed
  with Cons show ?case by simp
qed

lemma call0_stop: "call0 ''stop'' s = (Inl (AttributeError ''stop''), s)"
  by (simp add: call0_def FtdiDmxInterface_dir_def)

lemma DmxController_init_fields:
  "program DmxController_init = None"
  "queue (scheduler DmxController_init) = []"
  "sequence_generator (scheduler DmxController_init) = 0"
  "universe_inv (interface DmxController_init)"
  "highest_updated_channel (interface DmxController_init) = 0"
  "dmx_channels (interface DmxController_init) = replicate 513 0"
  by (simp_all add: DmxController_init_def universe_inv_init)
     (simp_all add: FtdiDmxInterface_init_def blackout_fields)

lemma load_fields:
  "program (load p c) = Some p"
  "scheduler (load p c) = scheduler c"
  "interface (load p c) = interface c"
  by (simp_all add: load_def)

lemma run_loaded:
  assumes "program c = Some p"
  shows "run env c =
    (case scheduler_run env (length p) (reading env (length p))
            (c\<lparr>scheduler := enter_program env 0 p (scheduler c)\<rparr>) of
       None \<Rightarrow> None
     | Some (Inl e, c') \<Rightarrow> Some (Inl e, c')
     | Some (Inr u, c') \<Rightarrow>
         (case call0 ''stop'' (interface c') of (r, s) \<Rightarrow> Some (r, c'\<lparr>interface := s\<rparr>)))"
  using assms by (simp add: run_def)

lemma schedule_and_run:
  assumes "valid_program p" and "universe_inv (interface c)" and "queue (scheduler c) = []"
    and "clock_keeps_on env" and "sleep_lasts env" and "delayfunc env 0 = None"
    and "\<forall>e \<in> set (queue (enter_program env 0 p (scheduler c))).
           can_wait_for env (reading env (length p)) (time e)"
  shows "\<exists>es.
    mset es = mset (queue (enter_program env 0 p (scheduler c))) \<and>
    sorted_wrt (\<lambda>a b. time a < time b \<or> (time a = time b \<and> priority a < priority b)) es \<and>
    (\<forall>e \<in> set es. valid_frame (argument e)) \<and>
    length es = length p \<and>
    scheduler_run env (length p) (reading env (length p))
        (c\<lparr>scheduler := enter_program env 0 p (scheduler c)\<rparr>) =
      Some (Inr (),
       c\<lparr>interface := fold (\<lambda>e. event_effect (argument e)) es (interface c),
         scheduler := (enter_program env 0 p (scheduler c))\<lparr>queue := []\<rparr>\<rparr>)"
proof -
  let ?sch = "enter_program env 0 p (scheduler c)"
  let ?evs = "map (\<lambda>(j, (delay, data)).
              \<lparr>time = fadd env (reading env j) delay, priority = j,
               sequence = sequence_generator (scheduler c) + (j - 0), argument = data\<rparr>)
          (enumerate 0 p)"
  have q: "queue ?sch = ?evs"
    using assms(3) by (simp add: enter_program_queue)
  have prio: "map priority (queue ?sch) = [0..<length p]"
    unfolding q by (simp add: comp_def case_prod_unfold)
  have args: "map argument (queue ?sch) = map snd p"
    unfolding q
    by (simp add: comp_def case_prod_unfold)
       (metis (no_types, lifting) List.map.compositionality comp_apply map_eq_conv map_snd_enumerate)
  have valid: "\<forall>e \<in> set (queue ?sch). valid_frame (argument e)"
  proof
    fix e assume "e \<in> set (queue ?sch)"
    then have "argument e \<in> set (map argument (queue ?sch))" by simp
    then have "argument e \<in> snd ` set p" by (simp add: args)
    then show "valid_frame (argument e)"
      using assms(1) by (auto simp: valid_program_def)
  qed
  from run_queue_ok [OF assms(2) valid assms(4,5,6,7) order_refl, of "length p"]
  obtain es where es: "mset es = mset (queue ?sch)" "sorted (map key es)"
    "run_queue env (length p) (reading env (length p)) (queue ?sch) (interface c) =
      Some (Inr (), [], fold (\<lambda>e. event_effect (argument e)) es (interface c))"
    by blast
  from es(1) have "mset (map priority es) = mset (map priority (queue ?sch))"
    by simp
  then have "distinct (map priority es)"
    by (metis prio distinct_upt mset_eq_imp_distinct_iff)
  with es(2) have ord:
    "sorted_wrt (\<lambda>a b. time a < time b \<or> (time a = time b \<and> priority a < priority b)) es"
    by (rule key_order)
  have "set es = set (queue ?sch)"
    using es(1) by (rule mset_eq_setD)
  with valid have valid_es: "\<forall>e \<in> set es. valid_frame (argument e)" by simp
  have "length es = length (queue ?sch)"
    using es(1) by (rule mset_eq_length)
  then have len: "length es = length p"
    by (simp add: q)
  have "scheduler_run env (length p) (reading env (length p)) (c\<lparr>scheduler := ?sch\<rparr>) =
      Some (Inr (),
       c\<lparr>interface := fold (\<lambda>e. event_effect (argument e)) es (interface c),
         scheduler := ?sch\<lparr>queue := []\<rparr>\<rparr>)"
    by (simp add: scheduler_run_def es(3))
  with es(1) ord valid_es len show ?thesis by blast
qed

lemma run_ends_in_AttributeError:
  "(program c = Some p \<longrightarrow> (\<forall>c'. run env c \<noteq> Some (Inr (), c'))) \<and>
   (program c = Some p \<and> valid_program p \<and> universe_inv (interface c) \<and>
      queue (scheduler c) = [] \<and> clock_keeps_on env \<and> sleep_lasts env \<and>
      delayfunc env 0 = None \<and>
      (\<forall>e \<in> set (queue (enter_program env 0 p (scheduler c))).
           can_wait_for env (reading env (length p)) (time e)) \<longrightarrow>
    (\<exists>c'. run env c = Some (Inl (AttributeError ''stop''), c') \<and>
      length (transmitted (interface c) (interface c')) = length p))"
proof -
  have never: "run env c \<noteq> Some (Inr (), c')" if "program c = Some p" for c'
    using that by (simp add: run_loaded call0_stop split: option.splits prod.splits sum.splits)
  have valid: "\<exists>c'. run env c = Some (Inl (AttributeError ''stop''), c') \<and>
      length (transmitted (interface c) (interface c')) = length p"
    if p: "program c = Some p" and v: "valid_program p"
      and i: "universe_inv (interface c)" and q: "queue (scheduler c) = []"
      and e: "clock_keeps_on env" "sleep_lasts env" "delayfunc env 0 = None"
        "\<forall>e \<in> set (queue (enter_program env 0 p (scheduler c))).
           can_wait_for env (reading env (length p)) (time e)"
  proof -
    from schedule_and_run [OF v i q e]
    obtain es where "mset es = mset (queue (enter_program env 0 p (scheduler c)))"
      and "sorted_wrt (\<lambda>a b. time a < time b \<or> (time a = time b \<and> priority a < priority b)) es"
      and es: "\<forall>e \<in> set es. valid_frame (argument e)" "length es = length p"
      "scheduler_run env (length p) (reading env (length p))
          (c\<lparr>scheduler := enter_program env 0 p (scheduler c)\<rparr>) =
        Some (Inr (),
         c\<lparr>interface := fold (\<lambda>e. event_effect (argument e)) es (interface c),
           scheduler := (enter_program env 0 p (scheduler c))\<lparr>queue := []\<rparr>\<rparr>)"
      by blast
    have run: "run env c =
        Some (Inl (AttributeError ''stop''),
         c\<lparr>interface := fold (\<lambda>e. event_effect (argument e)) es (interface c),
           scheduler := (enter_program env 0 p (scheduler c))\<lparr>queue := []\<rparr>\<rparr>)"
      by (simp add: run_loaded [OF p] es(3) call0_stop)
    show ?thesis
      using transmitted_fold_event_effect [OF i es(1)] es(2) by (simp add: run)
  qed
  from never valid show ?thesis by blast
qed

lemma exact_env_fields:
  "fadd (exact_env t0 dt) a b = a + b"
  "fsub (exact_env t0 dt) a b = a - b"
  "delayfunc (exact_env t0 dt) = time_sleep"
  "start (exact_env t0 dt) = t0"
  "advance (exact_env t0 dt) n Enter r = r + dt"
  "advance (exact_env t0 dt) n (Sleep d) r = r + d"
  "advance (exact_env t0 dt) n Action r = r"
  by (simp_all add: exact_env_def)

lemma exact_env_ok:
  "clock_keeps_on (exact_env t0 dt)"
  "sleep_lasts (exact_env t0 dt)"
  "delayfunc (exact_env t0 dt) 0 = None"
  by (simp_all add: clock_keeps_on_def sleep_lasts_def exact_env_fields time_sleep_def)

lemma exact_env_can_wait:
  assumes "t - r0 \<le> 9223372036"
  shows "can_wait_for (exact_env t0 dt) r0 t"
  using assms by (auto simp: can_wait_for_def exact_env_fields time_sleep_def)

lemma mset_two:
  assumes "mset es = mset [a, b]"
  shows "es = [a, b] \<or> es = [b, a]"
proof -
  from assms have "length es = 2"
    by (metis length_Cons list.size(3) mset_eq_length numeral_2_eq_2)
  then obtain x y where es: "es = [x, y]"
    by (metis (no_types) length_0_conv length_Suc_conv numeral_2_eq_2)
  with assms have "{#x, y#} = {#a, b#}" by simp
  then have "(x = a \<and> y = b) \<or> (x = b \<and> y = a)"
    by (auto simp: add_eq_conv_ex)
  with es show ?thesis by blast
qed

lemma take_2: "take 2 ((replicate 513 (0::int))[Suc 0 := 255]) = [0, 255]"
  by code_simp

lemma take_3: "take 3 ((replicate 513 (0::int))[Suc 0 := 255, 2 := 7]) = [0, 255, 7]"
  by code_simp

lemma run_single_step:
  assumes "\<not> now < time e" and "delayfunc env 0 = None"
    and "scheduler_callback (argument e) s = (Inr (), s')"
  shows "run_queue env n now [e] s = Some (Inr (), [], s')"
proof -
  have pop: "heappop [e] = (e, [])"
    by (simp add: heappop_def)
  have "run_queue env n now [e] s = run_queue env (Suc n) (advance env n Action now) [] s'"
    using run_queue_due [of "[e]" now s s' env n] assms by (simp add: pop)
  then show ?thesis
    by (simp add: pop run_queue_Nil)
qed

lemma invalid_frame_run:
  "run (exact_env 0 0) (load [(0, [(1, 255), (513, 0)])] DmxController_init) =
     Some (Inl (ValueError ''Channel 513 out of range.''),
           snd (the (run (exact_env 0 0) (load [(0, [(1, 255), (513, 0)])] DmxController_init)))) \<and>
   transmitted (interface DmxController_init)
     (interface (snd (the (run (exact_env 0 0)
        (load [(0, [(1, 255), (513, 0)])] DmxController_init))))) = [] \<and>
   dmx_channels
     (interface (snd (the (run (exact_env 0 0)
        (load [(0, [(1, 255), (513, 0)])] DmxController_init))))) ! 1 = 255"
proof -
  let ?env = "exact_env 0 0"
  let ?p = "[(0, [(1, 255), (513, 0)])] :: program"
  let ?c = "load ?p DmxController_init"
  let ?s = "interface DmxController_init"
  let ?e = "\<lparr>time = 0, priority = 0, sequence = 0, argument = [(1, 255), (513, 0)]\<rparr>"
  let ?s' = "?s\<lparr>dmx_channels := (replicate 513 0)[Suc 0 := 255], highest_updated_channel := 1\<rparr>"
  have sch: "enter_program ?env 0 ?p (scheduler ?c) =
      \<lparr>queue = [?e], sequence_generator = 1\<rparr>"
    by (simp add: enter_def enterabs_def load_fields DmxController_init_fields exact_env_fields)
  have pop: "heappop [?e] = (?e, [])"
    by (simp add: heappop_def)
  have set1: "set_channel 1 255 ?s = (Inr (), ?s')"
    using set_channel_ok [of ?s 1 255] by (simp add: DmxController_init_fields)
  have set2: "set_channel 513 0 ?s' = (Inl (ValueError ''Channel 513 out of range.''), ?s')"
    using set_channel_bad_channel [of 513 0 ?s'] by (simp add: str_examples)
  have cb: "scheduler_callback [(1, 255), (513, 0)] ?s =
      (Inl (ValueError ''Channel 513 out of range.''), ?s')"
    by (simp add: scheduler_callback_def setitem_def set1 set2)
  have rq: "run_queue ?env n 0 [?e] ?s =
      Some (Inl (ValueError ''Channel 513 out of range.''), [], ?s')" for n
    using run_queue_raised [of "[?e]" 0 ?s "ValueError ''Channel 513 out of range.''" ?s' ?env n]
    by (simp add: pop cb)
  have now: "reading ?env (length ?p) = 0"
    by (simp add: exact_env_fields)
  have run: "run ?env ?c =
      Some (Inl (ValueError ''Channel 513 out of range.''),
       ?c\<lparr>interface := ?s', scheduler := \<lparr>queue = [], sequence_generator = 1\<rparr>\<rparr>)"
    unfolding run_loaded [OF load_fields(1)] now
    by (simp add: scheduler_run_def sch load_fields(3) rq del: enter_program.simps)
  show ?thesis
    unfolding run by (simp add: transmitted_def io_since_def packets_def)
qed

lemma two_events_run:
  assumes q: "queue (enter_program env 0 [(t0, [(1, 255)]), (t1, [(2, 7)])]
        (scheduler (load [(t0, [(1, 255)]), (t1, [(2, 7)])] DmxController_init))) = [e0, e1]"
    and e0: "argument e0 = [(1, 255)]" "priority e0 = 0"
    and e1: "argument e1 = [(2, 7)]" "priority e1 = 1"
    and first: "time e0 \<le> time e1"
    and env: "clock_keeps_on env" "sleep_lasts env" "delayfunc env 0 = None"
    and wait: "can_wait_for env (reading env 2) (time e0)" "can_wait_for env (reading env 2) (time e1)"
  shows "run env (load [(t0, [(1, 255)]), (t1, [(2, 7)])] DmxController_init) =
      Some (Inl (AttributeError ''stop''),
            snd (the (run env (load [(t0, [(1, 255)]), (t1, [(2, 7)])] DmxController_init)))) \<and>
    transmitted (interface DmxController_init)
      (interface (snd (the (run env (load [(t0, [(1, 255)]), (t1, [(2, 7)])] DmxController_init))))) =
      [[0, 255], [0, 255, 7]]"
proof -
  let ?p = "[(t0, [(1, 255)]), (t1, [(2, 7)])] :: program"
  let ?c = "load ?p DmxController_init"
  let ?s = "interface DmxController_init"
  let ?s1 = "?s\<lparr>dmx_channels := (replicate 513 0)[Suc 0 := 255],
         io_trace := io_trace ?s @
           [Ftdi_set_line_property2 8 2 0 1, Nanosleep 0 96000,
            Ftdi_set_line_property2 8 2 0 0, Nanosleep 0 8000,
            Write [0, 255], Nanosleep 0 2000000],
         highest_updated_channel := 0\<rparr>"
  have v: "valid_program ?p" by (simp add: valid_program_def valid_frame_def)
  have i: "universe_inv (interface ?c)"
    by (simp add: load_fields DmxController_init_fields)
  have e: "queue (scheduler ?c) = []"
    by (simp add: load_fields DmxController_init_fields)
  have w: "\<forall>e \<in> set (queue (enter_program env 0 ?p (scheduler ?c))).
           can_wait_for env (reading env (length ?p)) (time e)"
    unfolding q using wait by (simp add: numeral_2_eq_2)
  from schedule_and_run [OF v i e env w]
  obtain es where perm: "mset es = mset (queue (enter_program env 0 ?p (scheduler ?c)))"
    and ord: "sorted_wrt (\<lambda>a b. time a < time b \<or> (time a = time b \<and> priority a < priority b)) es"
    and "\<forall>e \<in> set es. valid_frame (argument e)" and "length es = length ?p"
    and run: "scheduler_run env (length ?p) (reading env (length ?p))
        (?c\<lparr>scheduler := enter_program env 0 ?p (scheduler ?c)\<rparr>) =
      Some (Inr (),
       ?c\<lparr>interface := fold (\<lambda>e. event_effect (argument e)) es (interface ?c),
          scheduler := (enter_program env 0 ?p (scheduler ?c))\<lparr>queue := []\<rparr>\<rparr>)"
    by blast
  from perm have "es = [e0, e1] \<or> es = [e1, e0]"
    unfolding q by (simp only: mset_two)
  with ord first e0(2) e1(2) have es: "es = [e0, e1]" by auto
  have inv: "universe_inv ?s" by (rule DmxController_init_fields)
  have set1: "set_channel 1 255 ?s =
      (Inr (), ?s\<lparr>dmx_channels := (replicate 513 0)[1 := 255], highest_updated_channel := 1\<rparr>)"
    using set_channel_ok [of ?s 1 255] by (simp add: DmxController_init_fields)
  have inv1: "universe_inv (snd (set_channel 1 255 ?s))"
    using inv by (rule universe_inv_set_channel)
  have eff1: "event_effect [(1, 255)] ?s = ?s1"
    unfolding event_effect_def using render_ok [OF inv1] by (simp add: set1 take_2)
  have inv_s1: "universe_inv ?s1"
    using scheduler_callback_ok(2) [of "[(1, 255)]" ?s] inv
    by (simp add: eff1 valid_frame_def)
  have set2: "set_channel 2 7 ?s1 =
      (Inr (), ?s1\<lparr>dmx_channels := (replicate 513 0)[Suc 0 := 255, 2 := 7],
                  highest_updated_channel := 2\<rparr>)"
    using set_channel_ok [of ?s1 2 7] by simp
  have inv2: "universe_inv (snd (set_channel 2 7 ?s1))"
    using inv_s1 by (rule universe_inv_set_channel)
  have eff2: "io_trace (event_effect [(2, 7)] ?s1) = io_trace ?s @
           [Ftdi_set_line_property2 8 2 0 1, Nanosleep 0 96000,
            Ftdi_set_line_property2 8 2 0 0, Nanosleep 0 8000,
            Write [0, 255], Nanosleep 0 2000000,
            Ftdi_set_line_property2 8 2 0 1, Nanosleep 0 96000,
            Ftdi_set_line_property2 8 2 0 0, Nanosleep 0 8000,
            Write [0, 255, 7], Nanosleep 0 2000000]"
    unfolding event_effect_def using render_ok [OF inv2] by (simp add: set2 take_3)
  have "run env ?c =
      Some (Inl (AttributeError ''stop''),
       ?c\<lparr>interface := fold (\<lambda>e. event_effect (argument e)) es (interface ?c),
          scheduler := (enter_program env 0 ?p (scheduler ?c))\<lparr>queue := []\<rparr>\<rparr>)"
    by (simp only: run_loaded [OF load_fields(1)] run option.case prod.case sum.case call0_stop)
       simp
  then show ?thesis
    by (simp add: es e0 e1 load_fields(3) eff1 transmitted_def io_since_def eff2 packets_def)
qed

lemma entered_late_run:
  "run (exact_env 0 (1 / 1000000))
       (load [(1 / 10000000, [(1, 255)]), (0, [(2, 7)])] DmxController_init) =
     Some (Inl (AttributeError ''stop''),
           snd (the (run (exact_env 0 (1 / 1000000))
               (load [(1 / 10000000, [(1, 255)]), (0, [(2, 7)])] DmxController_init)))) \<and>
   transmitted (interface DmxController_init)
     (interface (snd (the (run (exact_env 0 (1 / 1000000))
       (load [(1 / 10000000, [(1, 255)]), (0, [(2, 7)])] DmxController_init))))) =
   [[0, 255], [0, 255, 7]]"
proof -
  let ?env = "exact_env 0 (1 / 1000000)"
  let ?e0 = "\<lparr>time = 1 / 10000000, priority = 0, sequence = 0, argument = [(1, 255)]\<rparr>"
  let ?e1 = "\<lparr>time = 1 / 1000000, priority = Suc 0, sequence = Suc 0, argument = [(2, 7)]\<rparr>"
  have q: "queue (enter_program ?env 0 [(1 / 10000000, [(1, 255)]), (0, [(2, 7)])]
        (scheduler (load [(1 / 10000000, [(1, 255)]), (0, [(2, 7)])] DmxController_init))) =
      [?e0, ?e1]"
    by (simp add: enter_def enterabs_def load_fields DmxController_init_fields exact_env_fields)
  have r: "reading ?env 2 = 2 / 1000000"
    by (simp add: exact_env_fields numeral_2_eq_2)
  show ?thesis
    by (rule two_events_run [OF q])
       (simp_all add: exact_env_ok exact_env_can_wait r)
qed

lemma far_event_run:
  "run (exact_env 0 0) (load [(10000000000, [(1, 255)])] DmxController_init) =
     Some (Inl (OverflowError ''timestamp too large to convert to C PyTime_t''),
           (load [(10000000000, [(1, 255)])] DmxController_init)
             \<lparr>scheduler :=
                \<lparr>queue = [\<lparr>time = 10000000000, priority = 0, sequence = 0, argument = [(1, 255)]\<rparr>],
                 sequence_generator = 1\<rparr>\<rparr>)"
proof -
  let ?env = "exact_env 0 0"
  let ?p = "[(10000000000, [(1, 255)])] :: program"
  let ?c = "load ?p DmxController_init"
  let ?e = "\<lparr>time = 10000000000, priority = 0, sequence = 0, argument = [(1, 255)]\<rparr>"
  have sch: "enter_program ?env 0 ?p (scheduler ?c) = \<lparr>queue = [?e], sequence_generator = 1\<rparr>"
    by (simp add: enter_def enterabs_def load_fields DmxController_init_fields exact_env_fields)
  have pop: "heappop [?e] = (?e, [])"
    by (simp add: heappop_def)
  have rq: "run_queue ?env n 0 [?e] s =
      Some (Inl (OverflowError ''timestamp too large to convert to C PyTime_t''), [?e], s)" for n s
    using run_queue_refused [of "[?e]" 0 ?env
        "OverflowError ''timestamp too large to convert to C PyTime_t''" n s]
    by (simp add: pop exact_env_fields time_sleep_def)
  have now: "reading ?env (length ?p) = 0"
    by (simp add: exact_env_fields)
  show ?thesis
    unfolding run_loaded [OF load_fields(1)] now
    by (simp add: scheduler_run_def sch load_fields(3) rq del: enter_program.simps)
qed

lemma round_tie: "round ((1700000000 + 1 / 10000000) * 4194304 :: real) = 7130316800000000"
  by (simp add: round_def floor_eq_iff)

lemma round_exact: "round ((1700000000 + 0) * 4194304 :: real) = 7130316800000000"
  by simp

lemma double_env_fields:
  "fadd (double_env t0) a b = of_int (round ((a + b) * 4194304)) / 4194304"
  "fsub (double_env t0) a b = a - b"
  "delayfunc (double_env t0) = time_sleep"
  "start (double_env t0) = t0"
  "advance (double_env t0) n Enter r = r"
  "advance (double_env t0) n (Sleep d) r = r + d"
  "advance (double_env t0) n Action r = r"
  by (simp_all add: double_env_def)

lemma double_env_sums:
  "fadd (double_env 1700000000) 1700000000 (1 / 10000000) = 1700000000"
  "fadd (double_env 1700000000) 1700000000 0 = 1700000000"
proof -
  show "fadd (double_env 1700000000) 1700000000 (1 / 10000000) = 1700000000"
    unfolding double_env_fields round_tie by simp
  show "fadd (double_env 1700000000) 1700000000 0 = 1700000000"
    unfolding double_env_fields round_exact by simp
qed

lemma double_env_ok:
  "clock_keeps_on (double_env t0)"
  "sleep_lasts (double_env t0)"
  "delayfunc (double_env t0) 0 = None"
  by (simp_all add: clock_keeps_on_def sleep_lasts_def double_env_fields time_sleep_def)

lemma double_env_can_wait:
  assumes "t - r0 \<le> 9223372036"
  shows "can_wait_for (double_env t0) r0 t"
  using assms by (auto simp: can_wait_for_def double_env_fields time_sleep_def)

lemma float_tie_run:
  "run (double_env 1700000000)
       (load [(1 / 10000000, [(1, 255)]), (0, [(2, 7)])] DmxController_init) =
     Some (Inl (AttributeError ''stop''),
           snd (the (run (double_env 1700000000)
               (load [(1 / 10000000, [(1, 255)]), (0, [(2, 7)])] DmxController_init)))) \<and>
   transmitted (interface DmxController_init)
     (interface (snd (the (run (double_env 1700000000)
       (load [(1 / 10000000, [(1, 255)]), (0, [(2, 7)])] DmxController_init))))) =
   [[0, 255], [0, 255, 7]]"
proof -
  let ?env = "double_env 1700000000"
  let ?e0 = "\<lparr>time = 1700000000, priority = 0, sequence = 0, argument = [(1, 255)]\<rparr>"
  let ?e1 = "\<lparr>time = 1700000000, priority = Suc 0, sequence = Suc 0, argument = [(2, 7)]\<rparr>"
  have rd: "reading ?env 0 = 1700000000" "reading ?env (Suc 0) = 1700000000"
    "reading ?env 2 = 1700000000"
    by (simp_all add: double_env_fields numeral_2_eq_2)
  have q: "queue (enter_program ?env 0 [(1 / 10000000, [(1, 255)]), (0, [(2, 7)])]
        (scheduler (load [(1 / 10000000, [(1, 255)]), (0, [(2, 7)])] DmxController_init))) =
      [?e0, ?e1]"
    by (simp add: enter_def enterabs_def load_fields DmxController_init_fields rd double_env_sums
        del: reading.simps)
  show ?thesis
    by (rule two_events_run [OF q])
       (simp_all add: double_env_ok double_env_can_wait rd)
qed

section \<open>Claims about the universe\<close>

text \<open>
  Claim C4: In a universe with the layout above, for every channel from 1 to 512 and every value
  from 0 to 255, \<^verbatim>\<open>set_channel(channel, value)\<close> succeeds and \<^verbatim>\<open>get_channel(channel)\<close> then
  returns the value.
\<close>

theorem set_channel_then_get_channel:
  assumes "universe_inv s"
    and "1 \<le> channel" and "channel \<le> 512"
    and "0 \<le> value" and "value \<le> 255"
  shows "fst (set_channel channel value s) = Inr () \<and>
         fst (get_channel channel (snd (set_channel channel value s))) = Inr value"
proof -
  from assms have len: "length (dmx_channels s) = 513"
    by (simp add: universe_inv_def)
  have set: "set_channel channel value s =
      (Inr (), s\<lparr>dmx_channels := (dmx_channels s)[nat channel := value],
                 highest_updated_channel := max (highest_updated_channel s) channel\<rparr>)"
    using len assms(2-5) by (rule set_channel_ok)
  have "get_channel channel (snd (set_channel channel value s)) =
      (Inr ((dmx_channels s)[nat channel := value] ! nat channel), snd (set_channel channel value s))"
    using len assms(2,3) by (simp add: set get_channel_ok)
  moreover have "(dmx_channels s)[nat channel := value] ! nat channel = value"
    using len assms(2,3) by simp
  ultimately show ?thesis by (simp add: set)
qed

theorem set_channel_then_get_channel_witness:
  "universe_inv (snd FtdiDmxInterface_init) \<and>
   fst (set_channel 10 200 (snd FtdiDmxInterface_init)) = Inr () \<and>
   fst (get_channel 10 (snd (set_channel 10 200 (snd FtdiDmxInterface_init)))) = Inr 200"
  using set_channel_then_get_channel [of "snd FtdiDmxInterface_init" 10 200]
  by (simp add: universe_inv_init)

text \<open>
  Claim C5: \<^verbatim>\<open>set_channel\<close> with a channel outside 1..512 raises the ValueError whose message
  names the channel; with a channel inside and a value outside 0..255 it raises the ValueError
  whose message names the value; \<^verbatim>\<open>get_channel\<close> with a channel outside 1..512 raises the
  ValueError that names the channel.  In each case the state after the call is the state
  before it: buffer, watermark and trace are untouched.
\<close>

theorem out_of_range_fails_without_change:
  "(\<not> (1 \<le> channel \<and> channel \<le> 512) \<longrightarrow>
      set_channel channel value s =
        (Inl (ValueError (''Channel '' @ str channel @ '' out of range.'')), s)) \<and>
   (1 \<le> channel \<and> channel \<le> 512 \<and> \<not> (0 \<le> value \<and> value \<le> 255) \<longrightarrow>
      set_channel channel value s =
        (Inl (ValueError (''Value '' @ str value @ '' out of range.'')), s)) \<and>
   (\<not> (1 \<le> channel \<and> channel \<le> 512) \<longrightarrow>
      get_channel channel s =
        (Inl (ValueError (''Channel '' @ str channel @ '' out of range.'')), s))"
  by (simp add: set_channel_bad_channel set_channel_bad_value get_channel_bad_channel)

theorem out_of_range_fails_without_change_witness:
  "set_channel 0 7 (snd FtdiDmxInterface_init) =
     (Inl (ValueError ''Channel 0 out of range.''), snd FtdiDmxInterface_init) \<and>
   set_channel 513 7 (snd FtdiDmxInterface_init) =
     (Inl (ValueError ''Channel 513 out of range.''), snd FtdiDmxInterface_init) \<and>
   set_channel 5 256 (snd FtdiDmxInterface_init) =
     (Inl (ValueError ''Value 256 out of range.''), snd FtdiDmxInterface_init) \<and>
   set_channel 5 (- 1) (snd FtdiDmxInterface_init) =
     (Inl (ValueError ''Value -1 out of range.''), snd FtdiDmxInterface_init) \<and>
   get_channel 513 (snd FtdiDmxInterface_init) =
     (Inl (ValueError ''Channel 513 out of range.''), snd FtdiDmxInterface_init)"
  using out_of_range_fails_without_change [of 0 7 "snd FtdiDmxInterface_init"]
    out_of_range_fails_without_change [of 513 7 "snd FtdiDmxInterface_init"]
    out_of_range_fails_without_change [of 5 256 "snd FtdiDmxInterface_init"]
    out_of_range_fails_without_change [of 5 "- 1" "snd FtdiDmxInterface_init"]
  by (simp add: str_examples)

text \<open>
  Claim C10: when both the channel and the value are out of range, the channel is checked
  first: the ValueError names the channel, not the value, and the state is unchanged.
\<close>

theorem channel_checked_before_value:
  assumes "\<not> (1 \<le> channel \<and> channel \<le> 512)" and "\<not> (0 \<le> value \<and> value \<le> 255)"
  shows "set_channel channel value s =
           (Inl (ValueError (''Channel '' @ str channel @ '' out of range.'')), s) \<and>
         fst (set_channel channel value s) \<noteq>
           Inl (ValueError (''Value '' @ str value @ '' out of range.''))"
  using assms(1) by (simp add: set_channel_bad_channel)

theorem channel_checked_before_value_witness:
  "\<not> (1 \<le> (0::int) \<and> (0::int) \<le> 512) \<and> \<not> (0 \<le> (256::int) \<and> (256::int) \<le> 255) \<and>
   set_channel 0 256 (snd FtdiDmxInterface_init) =
     (Inl (ValueError ''Channel 0 out of range.''), snd FtdiDmxInterface_init) \<and>
   fst (set_channel 0 256 (snd FtdiDmxInterface_init)) \<noteq>
     Inl (ValueError ''Value 256 out of range.'')"
  using channel_checked_before_value [of 0 256 "snd FtdiDmxInterface_init"]
  by (simp add: str_examples)

text \<open>
  Claim C8: a valid \<^verbatim>\<open>set_channel\<close> stores the value and sets the watermark to
  \<^verbatim>\<open>max(watermark, channel)\<close>, whatever value the slot held before (there is no test of the
  old value); and under any call of \<^verbatim>\<open>set_channel\<close>, valid or not, the watermark does not
  decrease.
\<close>

theorem set_channel_raises_watermark:
  "(universe_inv s \<and> 1 \<le> channel \<and> channel \<le> 512 \<and> 0 \<le> value \<and> value \<le> 255 \<longrightarrow>
      set_channel channel value s =
        (Inr (), s\<lparr>dmx_channels := (dmx_channels s)[nat channel := value],
                   highest_updated_channel := max (highest_updated_channel s) channel\<rparr>)) \<and>
   highest_updated_channel s \<le> highest_updated_channel (snd (set_channel channel value s))"
  by (simp add: set_channel_mono set_channel_ok universe_inv_def)

theorem set_channel_raises_watermark_witness:
  "universe_inv (snd FtdiDmxInterface_init) \<and>
   dmx_channels (snd FtdiDmxInterface_init) ! 5 = 0 \<and>
   highest_updated_channel (snd FtdiDmxInterface_init) = 0 \<and>
   dmx_channels (snd (set_channel 5 0 (snd FtdiDmxInterface_init))) ! 5 = 0 \<and>
   highest_updated_channel (snd (set_channel 5 0 (snd FtdiDmxInterface_init))) = 5"
  using set_channel_raises_watermark [of "snd FtdiDmxInterface_init" 5 0]
  by (simp add: universe_inv_init) (simp add: FtdiDmxInterface_init_def blackout_fields)

text \<open>
  Claim C9: the layout (513 slots, slot 0 equal to 0, every slot a byte, the watermark
  within 0..512) holds after construction, after \<^verbatim>\<open>reset\<close> and after \<^verbatim>\<open>blackout\<close>, and is kept
  by \<^verbatim>\<open>set_channel\<close>, \<^verbatim>\<open>get_channel\<close> and \<^verbatim>\<open>render\<close>; it gives a buffer of exactly 513
  slots with 0 at index 0, and every packet a \<^verbatim>\<open>render\<close> writes is non-empty and begins
  with 0.
\<close>

theorem universe_layout_invariant:
  "universe_inv (snd FtdiDmxInterface_init) \<and>
   universe_inv (reset s) \<and>
   universe_inv (snd (blackout s)) \<and>
   (universe_inv s \<longrightarrow>
      universe_inv (snd (set_channel channel value s)) \<and>
      universe_inv (snd (get_channel channel s)) \<and>
      universe_inv (snd (render s)) \<and>
      (\<forall>data \<in> set (transmitted s (snd (render s))). data \<noteq> [] \<and> hd data = 0)) \<and>
   (universe_inv s \<longrightarrow> length (dmx_channels s) = 513 \<and> dmx_channels s ! 0 = 0)"
proof -
  have "data \<noteq> [] \<and> hd data = 0"
    if "universe_inv s" and "data \<in> set (transmitted s (snd (render s)))" for data
  proof -
    from that have d: "data = take (nat (highest_updated_channel s + 1)) (dmx_channels s)"
      by (simp add: transmitted_render)
    from that(1) have "0 < nat (highest_updated_channel s + 1)" "dmx_channels s \<noteq> []"
      "dmx_channels s ! 0 = 0"
      by (auto simp: universe_inv_def)
    then show ?thesis
      unfolding d by (simp add: hd_conv_nth)
  qed
  then have packets: "universe_inv s \<longrightarrow>
      (\<forall>data \<in> set (transmitted s (snd (render s))). data \<noteq> [] \<and> hd data = 0)"
    by blast
  have layout: "universe_inv s \<longrightarrow> length (dmx_channels s) = 513 \<and> dmx_channels s ! 0 = 0"
    by (simp add: universe_inv_def)
  have ops: "universe_inv s \<longrightarrow>
      universe_inv (snd (set_channel channel value s)) \<and>
      universe_inv (snd (get_channel channel s)) \<and>
      universe_inv (snd (render s))"
    by (simp add: universe_inv_set_channel universe_inv_render)
  show ?thesis
    using packets layout ops universe_inv_init universe_inv_reset [of s]
      universe_inv_blackout [of s]
    by blast
qed

theorem universe_layout_invariant_witness:
  "universe_inv (snd FtdiDmxInterface_init) \<and>
   universe_inv (snd (set_channel 3 9 (snd FtdiDmxInterface_init))) \<and>
   universe_inv (snd (render (snd FtdiDmxInterface_init))) \<and>
   length (dmx_channels (snd FtdiDmxInterface_init)) = 513 \<and>
   dmx_channels (snd FtdiDmxInterface_init) ! 0 = 0 \<and>
   transmitted (snd FtdiDmxInterface_init) (snd (render (snd FtdiDmxInterface_init))) = [[0]] \<and>
   hd (hd (transmitted (snd FtdiDmxInterface_init) (snd (render (snd FtdiDmxInterface_init))))) = 0"
proof -
  have t: "transmitted (snd FtdiDmxInterface_init) (snd (render (snd FtdiDmxInterface_init))) = [[0]]"
    unfolding FtdiDmxInterface_init_def by (rule render_after_blackout)
  show ?thesis
    using universe_layout_invariant [of "snd FtdiDmxInterface_init" 3 9]
    unfolding t by simp
qed

text \<open>
  Claim C2: as amended.  Every \<^verbatim>\<open>render\<close> writes exactly the slots 0 to watermark of the
  buffer (watermark + 1 bytes) and then sets the watermark to 0, leaving the buffer as it
  is.  The render that follows \<^verbatim>\<open>reset\<close>, which is the one \<^verbatim>\<open>blackout\<close> and the constructor
  perform, writes 513 zero bytes; a \<^verbatim>\<open>render\<close> called once \<^verbatim>\<open>blackout\<close> has returned writes one
  byte, the start code.
\<close>

theorem render_transmits_prefix:
  "(universe_inv s \<longrightarrow>
      fst (render s) = Inr () \<and>
      transmitted s (snd (render s)) =
        [take (nat (highest_updated_channel s + 1)) (dmx_channels s)] \<and>
      int (length (take (nat (highest_updated_channel s + 1)) (dmx_channels s))) =
        highest_updated_channel s + 1 \<and>
      highest_updated_channel (snd (render s)) = 0 \<and>
      dmx_channels (snd (render s)) = dmx_channels s) \<and>
   transmitted (reset s) (snd (render (reset s))) = [replicate 513 0] \<and>
   transmitted s (snd (blackout s)) = [replicate 513 0] \<and>
   transmitted (snd (blackout s)) (snd (render (snd (blackout s)))) = [[0]]"
proof -
  have "int (length (take (nat (highest_updated_channel s + 1)) (dmx_channels s))) =
      highest_updated_channel s + 1" if "universe_inv s"
    using that by (auto simp: universe_inv_def min_def)
  moreover have "transmitted s (snd (blackout s)) = [replicate 513 0]"
    by (simp add: transmitted_def blackout_fields packets_def)
  ultimately show ?thesis
    by (simp add: transmitted_render render_reset render_after_blackout render_fields)
qed

theorem render_transmits_prefix_witness:
  "universe_inv (snd (set_channel 10 7 (snd FtdiDmxInterface_init))) \<and>
   highest_updated_channel (snd (set_channel 10 7 (snd FtdiDmxInterface_init))) = 10 \<and>
   length (transmitted (snd (set_channel 10 7 (snd FtdiDmxInterface_init)))
     (snd (render (snd (set_channel 10 7 (snd FtdiDmxInterface_init)))))) = 1 \<and>
   length (hd (transmitted (snd (set_channel 10 7 (snd FtdiDmxInterface_init)))
     (snd (render (snd (set_channel 10 7 (snd FtdiDmxInterface_init))))))) = 11"
proof -
  let ?s = "snd (set_channel 10 7 (snd FtdiDmxInterface_init))"
  have inv: "universe_inv ?s"
    by (rule universe_inv_set_channel) (rule universe_inv_init)
  have "set_channel 10 7 (snd FtdiDmxInterface_init) =
      (Inr (), (snd FtdiDmxInterface_init)
        \<lparr>dmx_channels := (dmx_channels (snd FtdiDmxInterface_init))[nat 10 := 7],
         highest_updated_channel := max (highest_updated_channel (snd FtdiDmxInterface_init)) 10\<rparr>)"
    using universe_inv_init by (intro set_channel_ok) (simp_all add: universe_inv_def)
  then have h: "highest_updated_channel ?s = 10"
    by (simp add: FtdiDmxInterface_init_def blackout_fields)
  from inv have len: "length (dmx_channels ?s) = 513"
    by (simp add: universe_inv_def)
  show ?thesis
    using render_transmits_prefix [of ?s] inv h len by simp
qed

text \<open>
  The first \<^verbatim>\<open>render\<close> after construction writes one byte, not 513: the constructor's own
  \<^verbatim>\<open>blackout\<close> has already rendered the full buffer and set the watermark to 0.
\<close>

theorem first_render_after_construction_counterexample:
  "transmitted (snd FtdiDmxInterface_init) (snd (render (snd FtdiDmxInterface_init))) = [[0]] \<and>
   transmitted (snd FtdiDmxInterface_init) (snd (render (snd FtdiDmxInterface_init))) \<noteq>
     [replicate 513 0]"
proof -
  have "transmitted (snd FtdiDmxInterface_init) (snd (render (snd FtdiDmxInterface_init))) = [[0]]"
    unfolding FtdiDmxInterface_init_def by (rule render_after_blackout)
  moreover have "[0::int] \<noteq> replicate 513 0"
  proof
    assume "[0::int] = replicate 513 0"
    then have "length [0::int] = length (replicate 513 (0::int))" by (rule arg_cong)
    then show False by simp
  qed
  ultimately show ?thesis by simp
qed

text \<open>
  Claim C3: every \<^verbatim>\<open>render\<close> makes, in this order and whatever the buffer and watermark are:
  the line property call with the break on, a sleep of 96 microseconds (at least 88), the
  line property call with the break off, a sleep of 8 microseconds, the write of the data,
  and a sleep of 2 milliseconds.  The durations are those the code asks \<^verbatim>\<open>nanosleep\<close> for.
\<close>

theorem render_framing:
  assumes "universe_inv s"
  shows "fst (render s) = Inr () \<and>
    io_since s (snd (render s)) =
      [Ftdi_set_line_property2 BITS_8 STOP_BITS_2 PARITY_NONE BREAK_ON,
       Nanosleep 0 96000,
       Ftdi_set_line_property2 BITS_8 STOP_BITS_2 PARITY_NONE BREAK_OFF,
       Nanosleep 0 8000,
       Write (take (nat (highest_updated_channel s + 1)) (dmx_channels s)),
       Nanosleep 0 2000000] \<and>
    requested_ns (io_since s (snd (render s)) ! 1) = 96 * 1000 \<and>
    88 * 1000 \<le> requested_ns (io_since s (snd (render s)) ! 1) \<and>
    8 * 1000 \<le> requested_ns (io_since s (snd (render s)) ! 3) \<and>
    2 * 1000000 \<le> requested_ns (io_since s (snd (render s)) ! 5)"
proof -
  have ok: "fst (render s) = Inr ()"
    using assms by (rule render_fields)
  have io: "io_since s (snd (render s)) =
      [Ftdi_set_line_property2 8 2 0 1, Nanosleep 0 96000,
       Ftdi_set_line_property2 8 2 0 0, Nanosleep 0 8000,
       Write (take (nat (highest_updated_channel s + 1)) (dmx_channels s)),
       Nanosleep 0 2000000]"
    using assms by (rule io_since_render)
  show ?thesis
    unfolding io by (simp add: ok requested_ns_def constants)
qed

theorem render_framing_witness:
  "universe_inv (snd FtdiDmxInterface_init) \<and>
   io_since (snd FtdiDmxInterface_init) (snd (render (snd FtdiDmxInterface_init))) =
      [Ftdi_set_line_property2 8 2 0 1, Nanosleep 0 96000,
       Ftdi_set_line_property2 8 2 0 0, Nanosleep 0 8000,
       Write [0], Nanosleep 0 2000000]"
proof -
  have "highest_updated_channel (snd FtdiDmxInterface_init) = 0"
    "dmx_channels (snd FtdiDmxInterface_init) = replicate 513 0"
    by (simp_all add: FtdiDmxInterface_init_def blackout_fields)
  then show ?thesis
    using render_framing [of "snd FtdiDmxInterface_init"] universe_inv_init
    by (simp add: constants)
qed

section \<open>Claims about the controller\<close>

text \<open>
  Claim C6: \<^verbatim>\<open>run\<close> on a controller with no program raises the RuntimeError ``No program
  loaded.'' (the NotLoadedError of the specification) and leaves the controller as it was:
  no call reaches the device or libc, no packet is written and no event is entered.  This
  holds in every environment.
\<close>

theorem run_without_program:
  assumes "program c = None"
  shows "run env c = Some (Inl (RuntimeError ''No program loaded.''), c) \<and>
    io_trace (interface (snd (the (run env c)))) = io_trace (interface c) \<and>
    transmitted (interface c) (interface (snd (the (run env c)))) = [] \<and>
    queue (scheduler (snd (the (run env c)))) = queue (scheduler c)"
  using assms by (simp add: run_def transmitted_def io_since_def packets_def)

theorem run_without_program_witness:
  "program DmxController_init = None \<and>
   run (exact_env 0 0) DmxController_init =
     Some (Inl (RuntimeError ''No program loaded.''), DmxController_init) \<and>
   transmitted (interface DmxController_init)
     (interface (snd (the (run (exact_env 0 0) DmxController_init)))) = []"
  using run_without_program [of DmxController_init "exact_env 0 0"]
  by (simp add: DmxController_init_fields transmitted_def io_since_def packets_def)

text \<open>
  Claim C7, as amended.  Take a loaded program whose every frame holds only channels from 1
  to 512 and values from 0 to 255, a universe with its layout, a scheduler whose queue is
  empty, and an environment in which an action does not set the clock back, a sleep that
  returns has lasted as long as asked, and \<^verbatim>\<open>time.sleep\<close> accepts the wait for each event
  from every reading of the clock since the loop of the scheduler began.  Then \<^verbatim>\<open>run\<close>
  enters one event for each item of the program, at the float sum of what the clock reads
  when the item is entered and the time of the item, with the index of the item as
  priority.  Every event fires, in ascending order of that sum, those of equal sum in the
  order of the program.  Each event stores every pair of its frame by \<^verbatim>\<open>set_channel\<close> and
  then renders once, so it writes exactly one packet, and the events together write as many
  packets as the program has items.  After the last event \<^verbatim>\<open>run\<close> goes on with the call
  of \<^verbatim>\<open>stop\<close> on the interface, of which nothing is said here.
\<close>

theorem run_fires_events_in_time_order:
  assumes "program c = Some p" and "valid_program p"
    and "universe_inv (interface c)" and "queue (scheduler c) = []"
    and "clock_keeps_on env" and "sleep_lasts env" and "delayfunc env 0 = None"
    and "\<forall>e \<in> set (queue (enter_program env 0 p (scheduler c))).
           can_wait_for env (reading env (length p)) (time e)"
  shows "\<exists>es c'.
    queue (enter_program env 0 p (scheduler c)) =
      map (\<lambda>(i, (delay, data)).
            \<lparr>time = fadd env (reading env i) delay, priority = i,
             sequence = sequence_generator (scheduler c) + i, argument = data\<rparr>)
        (enumerate 0 p) \<and>
    mset es = mset (queue (enter_program env 0 p (scheduler c))) \<and>
    sorted_wrt (\<lambda>a b. time a < time b \<or> (time a = time b \<and> priority a < priority b)) es \<and>
    (\<forall>e \<in> set es. \<forall>s. universe_inv s \<longrightarrow>
        scheduler_callback (argument e) s = (Inr (), event_effect (argument e) s) \<and>
        length (transmitted s (event_effect (argument e) s)) = 1) \<and>
    scheduler_run env (length p) (reading env (length p))
        (c\<lparr>scheduler := enter_program env 0 p (scheduler c)\<rparr>) = Some (Inr (), c') \<and>
    interface c' = fold (\<lambda>e. event_effect (argument e)) es (interface c) \<and>
    queue (scheduler c') = [] \<and>
    length (transmitted (interface c) (interface c')) = length p \<and>
    run env c =
      (case call0 ''stop'' (interface c') of (r, s) \<Rightarrow> Some (r, c'\<lparr>interface := s\<rparr>))"
proof -
  let ?sch = "enter_program env 0 p (scheduler c)"
  from schedule_and_run [OF assms(2-8)]
  obtain es where es: "mset es = mset (queue ?sch)"
    "sorted_wrt (\<lambda>a b. time a < time b \<or> (time a = time b \<and> priority a < priority b)) es"
    "\<forall>e \<in> set es. valid_frame (argument e)"
    "length es = length p"
    "scheduler_run env (length p) (reading env (length p)) (c\<lparr>scheduler := ?sch\<rparr>) =
      Some (Inr (),
       c\<lparr>interface := fold (\<lambda>e. event_effect (argument e)) es (interface c),
         scheduler := ?sch\<lparr>queue := []\<rparr>\<rparr>)"
    by blast
  let ?c' = "c\<lparr>interface := fold (\<lambda>e. event_effect (argument e)) es (interface c),
         scheduler := ?sch\<lparr>queue := []\<rparr>\<rparr>"
  have q: "queue ?sch =
      map (\<lambda>(i, (delay, data)).
            \<lparr>time = fadd env (reading env i) delay, priority = i,
             sequence = sequence_generator (scheduler c) + i, argument = data\<rparr>)
        (enumerate 0 p)"
    using assms(4) by (simp add: enter_program_queue)
  have each: "\<forall>e \<in> set es. \<forall>s. universe_inv s \<longrightarrow>
        scheduler_callback (argument e) s = (Inr (), event_effect (argument e) s) \<and>
        length (transmitted s (event_effect (argument e) s)) = 1"
    using es(3) by (simp add: scheduler_callback_ok(1) transmitted_event_effect)
  have count: "length (transmitted (interface c) (interface ?c')) = length p"
    using transmitted_fold_event_effect [OF assms(3) es(3)] es(4) by simp
  have run: "run env c =
      (case call0 ''stop'' (interface ?c') of (r, s) \<Rightarrow> Some (r, ?c'\<lparr>interface := s\<rparr>))"
    by (simp only: run_loaded [OF assms(1)] es(5) option.case prod.case sum.case)
  show ?thesis
    apply (rule exI [of _ es])
    apply (rule exI [of _ ?c'])
    apply (intro conjI)
            apply (rule q)
           apply (rule es(1))
          apply (rule es(2))
         apply (rule each)
        apply (rule es(5))
       apply simp
      apply simp
     apply (rule count)
    apply (rule run)
    done
qed

theorem run_fires_events_in_time_order_witness:
  "program (load [(1, [(1, 255)]), (0, [(2, 7), (1, 3)])] DmxController_init) =
     Some [(1, [(1, 255)]), (0, [(2, 7), (1, 3)])] \<and>
   valid_program [(1, [(1, 255)]), (0, [(2, 7), (1, 3)])] \<and>
   universe_inv (interface (load [(1, [(1, 255)]), (0, [(2, 7), (1, 3)])] DmxController_init)) \<and>
   queue (scheduler (load [(1, [(1, 255)]), (0, [(2, 7), (1, 3)])] DmxController_init)) = [] \<and>
   clock_keeps_on (exact_env 0 0) \<and> sleep_lasts (exact_env 0 0) \<and>
   delayfunc (exact_env 0 0) 0 = None \<and>
   can_wait_for (exact_env 0 0) 0 1 \<and> can_wait_for (exact_env 0 0) 0 0 \<and>
   (\<exists>(es :: event list) c'.
      map time es = [0, 1] \<and>
      map argument es = [[(2, 7), (1, 3)], [(1, 255)]] \<and>
      scheduler_run (exact_env 0 0) 2 0
        ((load [(1, [(1, 255)]), (0, [(2, 7), (1, 3)])] DmxController_init)
          \<lparr>scheduler := enter_program (exact_env 0 0) 0 [(1, [(1, 255)]), (0, [(2, 7), (1, 3)])]
             (scheduler (load [(1, [(1, 255)]), (0, [(2, 7), (1, 3)])] DmxController_init))\<rparr>) =
        Some (Inr (), c') \<and>
      interface c' = fold (\<lambda>e. event_effect (argument e)) es (interface DmxController_init) \<and>
      length (transmitted (interface DmxController_init) (interface c')) = 2)"
proof -
  let ?env = "exact_env 0 0"
  let ?p = "[(1, [(1, 255)]), (0, [(2, 7), (1, 3)])] :: program"
  let ?c = "load ?p DmxController_init"
  let ?e0 = "\<lparr>time = 1, priority = 0, sequence = 0, argument = [(1, 255)]\<rparr>"
  let ?e1 = "\<lparr>time = 0, priority = Suc 0, sequence = Suc 0, argument = [(2, 7), (1, 3)]\<rparr>"
  have h1: "program ?c = Some ?p" by (rule load_fields)
  have h2: "valid_program ?p" by (simp add: valid_program_def valid_frame_def)
  have h3: "universe_inv (interface ?c)"
    by (simp add: load_fields DmxController_init_fields)
  have h4: "queue (scheduler ?c) = []"
    by (simp add: load_fields DmxController_init_fields)
  note h5 = exact_env_ok [of 0 0]
  have w1: "can_wait_for ?env 0 1" and w0: "can_wait_for ?env 0 0"
    by (simp_all add: exact_env_can_wait)
  have now: "reading ?env (length ?p) = 0"
    by (simp add: exact_env_fields)
  have len: "length ?p = 2" by simp
  have q0: "queue (enter_program ?env 0 ?p (scheduler ?c)) = [?e0, ?e1]"
    by (simp add: enter_def enterabs_def load_fields DmxController_init_fields exact_env_fields)
  have h6: "\<forall>e \<in> set (queue (enter_program ?env 0 ?p (scheduler ?c))).
           can_wait_for ?env (reading ?env (length ?p)) (time e)"
    unfolding q0 now using w1 w0 by simp
  from run_fires_events_in_time_order [OF h1 h2 h3 h4 h5 h6]
  obtain es c' where
    perm: "mset es = mset (queue (enter_program ?env 0 ?p (scheduler ?c)))"
    and ord: "sorted_wrt (\<lambda>a b. time a < time b \<or> (time a = time b \<and> priority a < priority b)) es"
    and run: "scheduler_run ?env (length ?p) (reading ?env (length ?p))
        (?c\<lparr>scheduler := enter_program ?env 0 ?p (scheduler ?c)\<rparr>) = Some (Inr (), c')"
    and eff: "interface c' = fold (\<lambda>e. event_effect (argument e)) es (interface ?c)"
    and cnt: "length (transmitted (interface ?c) (interface c')) = length ?p"
    by blast
  from perm have "es = [?e0, ?e1] \<or> es = [?e1, ?e0]"
    unfolding q0 by (simp only: mset_two)
  with ord have es: "es = [?e1, ?e0]" by auto
  have m: "map time es = [0, 1]" "map argument es = [[(2, 7), (1, 3)], [(1, 255)]]"
    by (simp_all add: es)
  from run have run': "scheduler_run ?env 2 0
        (?c\<lparr>scheduler := enter_program ?env 0 ?p (scheduler ?c)\<rparr>) = Some (Inr (), c')"
    unfolding now unfolding len .
  from eff have eff': "interface c' =
      fold (\<lambda>e. event_effect (argument e)) es (interface DmxController_init)"
    by (simp only: load_fields(3))
  from cnt have cnt': "length (transmitted (interface DmxController_init) (interface c')) = 2"
    by (simp add: load_fields(3))
  have "\<exists>(es :: event list) c'.
      map time es = [0, 1] \<and>
      map argument es = [[(2, 7), (1, 3)], [(1, 255)]] \<and>
      scheduler_run ?env 2 0 (?c\<lparr>scheduler := enter_program ?env 0 ?p (scheduler ?c)\<rparr>) =
        Some (Inr (), c') \<and>
      interface c' = fold (\<lambda>e. event_effect (argument e)) es (interface DmxController_init) \<and>
      length (transmitted (interface DmxController_init) (interface c')) = 2"
    by (rule exI [of _ es], rule exI [of _ c']) (intro conjI m run' eff' cnt')
  with h1 h2 h3 h4 h5 w1 w0 show ?thesis
    by (intro conjI)
qed

text \<open>
  The claim as stated fails in two ways.  The program \<^verbatim>\<open>{0.0: {1: 255, 513: 0}}\<close> loads, and
  its event stores channel 1, raises on channel 513 and renders nothing: no packet is
  written, and \<^verbatim>\<open>run\<close> ends with the ValueError.  And the program
  \<^verbatim>\<open>{1e-7: {1: 255}, 0.0: {2: 7}}\<close>, entered while the clock advances by a microsecond from
  one \<^verbatim>\<open>enter\<close> to the next, fires the frame of time 1e-7 before the frame of time 0: the
  packets are \<^verbatim>\<open>[0, 255]\<close> and then \<^verbatim>\<open>[0, 255, 7]\<close>.  The lemma \<open>float_tie_run\<close> above has
  the same packets with the clock standing still at 1700000000, where the two float sums
  are equal.
\<close>

theorem run_claim_counterexample:
  "run (exact_env 0 0) (load [(0, [(1, 255), (513, 0)])] DmxController_init) =
     Some (Inl (ValueError ''Channel 513 out of range.''),
           snd (the (run (exact_env 0 0) (load [(0, [(1, 255), (513, 0)])] DmxController_init)))) \<and>
   transmitted (interface DmxController_init)
     (interface (snd (the (run (exact_env 0 0)
        (load [(0, [(1, 255), (513, 0)])] DmxController_init))))) = [] \<and>
   dmx_channels
     (interface (snd (the (run (exact_env 0 0)
        (load [(0, [(1, 255), (513, 0)])] DmxController_init))))) ! 1 = 255 \<and>
   run (exact_env 0 (1 / 1000000))
       (load [(1 / 10000000, [(1, 255)]), (0, [(2, 7)])] DmxController_init) =
     Some (Inl (AttributeError ''stop''),
           snd (the (run (exact_env 0 (1 / 1000000))
               (load [(1 / 10000000, [(1, 255)]), (0, [(2, 7)])] DmxController_init)))) \<and>
   transmitted (interface DmxController_init)
     (interface (snd (the (run (exact_env 0 (1 / 1000000))
       (load [(1 / 10000000, [(1, 255)]), (0, [(2, 7)])] DmxController_init))))) =
   [[0, 255], [0, 255, 7]]"
  using invalid_frame_run entered_late_run by simp

text \<open>
  Claim C1.  \<^verbatim>\<open>run\<close> ends with \<^verbatim>\<open>self._interface.stop()\<close>, and \<^verbatim>\<open>FtdiDmxInterface\<close> has no
  attribute of that name.  For the program \<^verbatim>\<open>{0.0: {1: 255}}\<close> the one event fires and
  writes the packet \<^verbatim>\<open>[0, 255]\<close>; then \<^verbatim>\<open>run\<close> raises AttributeError instead of returning,
  no packet of 513 zeros follows, and channel 1 is left at 255.
\<close>

theorem run_loaded_program_raises:
  "run (exact_env 0 0) (load [(0, [(1, 255)])] DmxController_init) =
     Some (Inl (AttributeError ''stop''),
           snd (the (run (exact_env 0 0) (load [(0, [(1, 255)])] DmxController_init)))) \<and>
   transmitted (interface (load [(0, [(1, 255)])] DmxController_init))
     (interface (snd (the (run (exact_env 0 0) (load [(0, [(1, 255)])] DmxController_init))))) =
     [[0, 255]] \<and>
   highest_updated_channel
     (interface (snd (the (run (exact_env 0 0) (load [(0, [(1, 255)])] DmxController_init))))) = 0 \<and>
   dmx_channels
     (interface (snd (the (run (exact_env 0 0) (load [(0, [(1, 255)])] DmxController_init))))) ! 1 =
     255"
proof -
  let ?env = "exact_env 0 0"
  let ?c = "load [(0, [(1, 255)])] DmxController_init"
  let ?s = "interface DmxController_init"
  let ?e = "\<lparr>time = 0, priority = 0, sequence = 0, argument = [(1, 255)]\<rparr>"
  have inv: "universe_inv ?s" by (rule DmxController_init_fields)
  have v: "valid_frame [(1, 255)]" by (simp add: valid_frame_def)
  have sch: "enter_program ?env 0 [(0, [(1, 255)])] (scheduler ?c) =
      \<lparr>queue = [?e], sequence_generator = 1\<rparr>"
    by (simp add: enter_def enterabs_def load_fields DmxController_init_fields exact_env_fields)
  have rq: "run_queue ?env n now [?e] ?s = Some (Inr (), [], event_effect [(1, 255)] ?s)"
    if "0 \<le> now" for n now
    using that by (intro run_single_step) (simp_all add: exact_env_ok scheduler_callback_ok(1) [OF v inv])
  have now: "reading ?env (length [(0::real, [(1::int, 255::int)])]) = 0"
    by (simp add: exact_env_fields)
  have set: "set_channel 1 255 ?s =
      (Inr (), ?s\<lparr>dmx_channels := (replicate 513 0)[1 := 255], highest_updated_channel := 1\<rparr>)"
    using set_channel_ok [of ?s 1 255] by (simp add: DmxController_init_fields)
  have inv': "universe_inv (snd (set_channel 1 255 ?s))"
    using inv by (rule universe_inv_set_channel)
  have eff: "event_effect [(1, 255)] ?s =
      ?s\<lparr>dmx_channels := (replicate 513 0)[1 := 255],
         io_trace := io_trace ?s @
           [Ftdi_set_line_property2 8 2 0 1, Nanosleep 0 96000,
            Ftdi_set_line_property2 8 2 0 0, Nanosleep 0 8000,
            Write [0, 255], Nanosleep 0 2000000],
         highest_updated_channel := 0\<rparr>"
    unfolding event_effect_def using render_ok [OF inv'] by (simp add: set take_2)
  have run: "run ?env ?c =
      Some (Inl (AttributeError ''stop''),
       ?c\<lparr>interface := event_effect [(1, 255)] ?s,
          scheduler := \<lparr>queue = [], sequence_generator = 1\<rparr>\<rparr>)"
    unfolding run_loaded [OF load_fields(1)] now
    by (simp add: scheduler_run_def sch load_fields(3) rq call0_stop del: enter_program.simps)
  show ?thesis
    unfolding run by (simp add: load_fields eff transmitted_def io_since_def packets_def)
qed

end
